theory Spec2Isabelle
  imports Main "HOL-Library.Word"
begin

section \<open>Time values\<close>

text \<open>
  Go's \<^verbatim>\<open>time.Time\<close> is an instant together with a location. The instant is counted
  in nanoseconds from the zero time (January 1, year 1, 00:00:00 UTC), the location only
  says how the instant is displayed. \<^verbatim>\<open>UTC()\<close> keeps the instant and sets the location,
  \<^verbatim>\<open>IsZero()\<close> looks at the instant only.
\<close>

datatype Location = LocUTC | Local | FixedZone int

record Time =
  nanos :: int
  loc :: Location

definition UTC :: "Time \<Rightarrow> Time" where
  "UTC t = t\<lparr>loc := LocUTC\<rparr>"

definition IsZero :: "Time \<Rightarrow> bool" where
  "IsZero t \<longleftrightarrow> nanos t = 0"

text \<open>
  \<^verbatim>\<open>time.Duration\<close> is an \<^verbatim>\<open>int64\<close> count of nanoseconds: a 64-bit word read as two's
  complement, whose multiplication wraps around.
\<close>

type_synonym Duration = "64 word"

definition Second :: Duration where
  "Second = 1000000000"

definition Add :: "Time \<Rightarrow> Duration \<Rightarrow> Time" where
  "Add t d = t\<lparr>nanos := nanos t + sint d\<rparr>"

text \<open>
  The wall clock: \<open>clk n\<close> is what the \<open>n\<close>-th call of \<^verbatim>\<open>time.Now()\<close> returns. A
  function that reads the clock takes the index of its next reading and returns the
  index it leaves behind.
\<close>

type_synonym clock = "nat \<Rightarrow> Time"

section \<open>Parsing the serial list\<close>

subsection \<open>\<^verbatim>\<open>strings.Split(s, "\n")\<close>\<close>

definition newline :: char where
  "newline = CHR 0x0A"

fun Split :: "string \<Rightarrow> string list" where
  "Split [] = [[]]"
| "Split (c # cs) =
     (if c = newline then [] # Split cs
      else (case Split cs of [] \<Rightarrow> [[c]] | l # ls \<Rightarrow> (c # l) # ls))"

subsection \<open>\<^verbatim>\<open>len(strings.TrimSpace(value)) == 0\<close>\<close>

text \<open>
  \<^verbatim>\<open>strings.TrimSpace\<close> removes the leading and trailing white space of a string read
  as UTF-8, white space being what \<^verbatim>\<open>unicode.IsSpace\<close> accepts: the six ASCII
  characters tab, line feed, vertical tab, form feed, carriage return and space, and the
  code points U+0085, U+00A0, U+1680, U+2000 to U+200A, U+2028, U+2029, U+202F, U+205F
  and U+3000. The result is empty exactly when the string is a sequence of such
  characters, which is all the source asks of it.
\<close>

definition asciiSpace :: "char \<Rightarrow> bool" where
  "asciiSpace c \<longleftrightarrow> c \<in> {CHR 0x09, CHR 0x0A, CHR 0x0B, CHR 0x0C, CHR 0x0D, CHR 0x20}"

definition space2 :: "char \<Rightarrow> char \<Rightarrow> bool" where
  "space2 a b \<longleftrightarrow> a = CHR 0xC2 \<and> (b = CHR 0x85 \<or> b = CHR 0xA0)"

definition space3 :: "char \<Rightarrow> char \<Rightarrow> char \<Rightarrow> bool" where
  "space3 a b c \<longleftrightarrow>
     (a = CHR 0xE1 \<and> b = CHR 0x9A \<and> c = CHR 0x80) \<or>
     (a = CHR 0xE2 \<and> b = CHR 0x80 \<and>
        ((128 \<le> (of_char c :: nat) \<and> (of_char c :: nat) \<le> 138) \<or>
         c = CHR 0xA8 \<or> c = CHR 0xA9 \<or> c = CHR 0xAF)) \<or>
     (a = CHR 0xE2 \<and> b = CHR 0x81 \<and> c = CHR 0x9F) \<or>
     (a = CHR 0xE3 \<and> b = CHR 0x80 \<and> c = CHR 0x80)"

fun TrimSpace_empty :: "string \<Rightarrow> bool" where
  "TrimSpace_empty [] = True"
| "TrimSpace_empty [a] = asciiSpace a"
| "TrimSpace_empty [a, b] =
     (if asciiSpace a then TrimSpace_empty [b] else space2 a b)"
| "TrimSpace_empty (a # b # c # s) =
     (if asciiSpace a then TrimSpace_empty (b # c # s)
      else if space2 a b then TrimSpace_empty (c # s)
      else space3 a b c \<and> TrimSpace_empty s)"

subsection \<open>\<^verbatim>\<open>(*big.Int).SetString(s, 10)\<close> on a fresh integer\<close>

text \<open>
  \<^verbatim>\<open>SetString\<close> of \<^verbatim>\<open>math/big\<close> reads an optional sign, then the longest run of
  decimal digits, storing their value in the receiver, and only then checks that a digit
  was found and that nothing follows. It reports success with its second result; when it
  fails the receiver keeps what the scan stored (the library documents the value as
  undefined on failure). The pair returned here is the receiver's value after the call,
  the receiver being \<^verbatim>\<open>new(big.Int)\<close>, and the success flag.
\<close>

definition is_digit :: "char \<Rightarrow> bool" where
  "is_digit c \<longleftrightarrow> 48 \<le> (of_char c :: nat) \<and> (of_char c :: nat) \<le> 57"

definition digit_val :: "char \<Rightarrow> nat" where
  "digit_val c = of_char c - 48"

definition digits_value :: "string \<Rightarrow> nat" where
  "digits_value ds = foldl (\<lambda>a c. 10 * a + digit_val c) 0 ds"

definition SetString :: "string \<Rightarrow> int \<times> bool" where
  "SetString s =
     (case s of
        [] \<Rightarrow> (0, False)
      | c # cs \<Rightarrow>
          (let neg = (c = CHR ''-'');
               body = (if c = CHR ''-'' \<or> c = CHR ''+'' then cs else s);
               ds = takeWhile is_digit body;
               rest = dropWhile is_digit body
           in if ds = [] then (0, False)
              else ((if neg then - int (digits_value ds) else int (digits_value ds)),
                    rest = [])))"

section \<open>Errors\<close>

text \<open>
  Go's \<^verbatim>\<open>error\<close> values, by where they come from: \<open>Wrap\<close> is \<^verbatim>\<open>cferr.Wrap\<close> with its
  category, its reason and the error it wraps, \<open>New\<close> is \<^verbatim>\<open>errors.New\<close>, \<open>Errorf\<close> is
  \<^verbatim>\<open>fmt.Errorf\<close> with its format and its integer arguments, and \<open>External\<close> is an error
  made outside the code modelled here (by the database driver, the PEM parsers, the
  signing primitive or the command-line helpers), of which nothing is known.
\<close>

datatype Category = CertStoreError

datatype ErrorReason = Unknown | InsertionFailed | RecordNotFound

datatype 'x error =
    Wrap Category ErrorReason "'x error"
  | New string
  | Errorf string "int list"
  | External 'x

section \<open>The CRL assembler\<close>

record RevokedCertificate =
  SerialNumber :: int
  RevocationTime :: Time

record TBSCertificateList =
  ThisUpdate :: Time
  NextUpdate :: Time
  RevokedCertificates :: "RevokedCertificate list"

record ('c, 's) CertificateList =
  Issuer :: 'c
  TBSCertList :: TBSCertificateList
  SignatureValue :: 's

text \<open>
  The collaborators of the assembler: the two PEM parsers of the \<^verbatim>\<open>helpers\<close> package
  and the signing primitive behind \<^verbatim>\<open>x509.Certificate.CreateCRL\<close>. They are
  parameters: \<open>'c\<close> is a parsed certificate, \<open>'k\<close> a private key, \<open>'s\<close> a signature and
  \<open>'x\<close> an error of theirs. \<open>Sign\<close> is given the contents of the list as they are
  encoded; it stands for the encoding and the signing, and fails when the list cannot
  be encoded or the key cannot sign.
\<close>

record ('c, 'k, 's, 'x) crypto =
  ParseCertificatePEM :: "string \<Rightarrow> 'x + 'c"
  ParsePrivateKeyPEM :: "string \<Rightarrow> 'x + 'k"
  Sign :: "'k \<Rightarrow> 'c \<Rightarrow> TBSCertificateList \<Rightarrow> 'x + 's"

text \<open>
  The DER encoding of a list writes each time as an ASN.1 time, which holds the date and
  the time of day in UTC down to the second: of a \<^verbatim>\<open>time.Time\<close> it keeps the whole
  seconds of the instant and drops the nanoseconds within the second.
\<close>

definition marshal_time :: "Time \<Rightarrow> Time" where
  "marshal_time t = \<lparr>nanos = (nanos t div 1000000000) * 1000000000, loc = LocUTC\<rparr>"

definition marshal_tbs :: "TBSCertificateList \<Rightarrow> TBSCertificateList" where
  "marshal_tbs tbs =
     \<lparr>ThisUpdate = marshal_time (ThisUpdate tbs),
      NextUpdate = marshal_time (NextUpdate tbs),
      RevokedCertificates =
        map (\<lambda>rc. rc\<lparr>RevocationTime := marshal_time (RevocationTime rc)\<rparr>)
          (RevokedCertificates tbs)\<rparr>"

text \<open>
  \<^verbatim>\<open>CreateCRL\<close> of the standard library fills the list to be signed with the revoked
  certificates it is given and with both update times in UTC, encodes it, signs the
  encoding and returns the encoded list. The model returns the list as
  \<^verbatim>\<open>x509.ParseDERCRL\<close> reads it back from these bytes, that is with the times the
  encoding holds.
\<close>

definition CreateCRL ::
  "('c, 'k, 's, 'x) crypto \<Rightarrow> 'c \<Rightarrow> 'k \<Rightarrow> RevokedCertificate list \<Rightarrow> Time \<Rightarrow> Time
     \<Rightarrow> 'x error + ('c, 's) CertificateList" where
  "CreateCRL env c priv revokedCerts now expiry =
     (let tbsCertList = \<lparr>ThisUpdate = UTC now, NextUpdate = UTC expiry,
            RevokedCertificates =
              map (\<lambda>rc. rc\<lparr>RevocationTime := UTC (RevocationTime rc)\<rparr>) revokedCerts\<rparr>;
          tbsCertListContents = marshal_tbs tbsCertList
      in case Sign env priv c tbsCertListContents of
           Inl err \<Rightarrow> Inl (External err)
         | Inr sig \<Rightarrow>
             Inr \<lparr>Issuer = c, TBSCertList = tbsCertListContents, SignatureValue = sig\<rparr>)"

definition CreateGenericCRL ::
  "('c, 'k, 's, 'x) crypto \<Rightarrow> clock \<Rightarrow> nat \<Rightarrow> RevokedCertificate list \<Rightarrow> 'k \<Rightarrow> 'c \<Rightarrow> Time
     \<Rightarrow> 'x error + ('c, 's) CertificateList" where
  "CreateGenericCRL env clk n certList key issuingCert expiryTime =
     CreateCRL env issuingCert key certList (clk n) expiryTime"

definition oneWeek :: Duration where
  "oneWeek = 604800 * Second"

text \<open>The loop over the lines of the serial list, with the slice it appends to.\<close>

fun revoke_lines ::
  "clock \<Rightarrow> nat \<Rightarrow> string list \<Rightarrow> RevokedCertificate list \<Rightarrow> RevokedCertificate list \<times> nat" where
  "revoke_lines clk n [] revokedCerts = (revokedCerts, n)"
| "revoke_lines clk n (v # individualCerts) revokedCerts =
     (if TrimSpace_empty v then revoke_lines clk n individualCerts revokedCerts
      else
        let tempBigInt = fst (SetString v);
            tempCert = \<lparr>SerialNumber = tempBigInt, RevocationTime = clk n\<rparr>
        in revoke_lines clk (Suc n) individualCerts (revokedCerts @ [tempCert]))"

definition NewCRLFromFile ::
  "('c, 'k, 's, 'x) crypto \<Rightarrow> clock \<Rightarrow> string \<Rightarrow> string \<Rightarrow> string \<Rightarrow> Duration
     \<Rightarrow> 'x error + ('c, 's) CertificateList" where
  "NewCRLFromFile env clk serialList issuerFile keyFile expiryDuration =
     (let newExpiryTime = Add (clk 0) expiryDuration;
          (newExpiryTime, n) =
             (if expiryDuration = 0 then (Add (clk 1) oneWeek, 2) else (newExpiryTime, 1))
      in case ParseCertificatePEM env issuerFile of
           Inl err \<Rightarrow> Inl (External err)
         | Inr issuerCert \<Rightarrow>
             (let individualCerts = Split serialList;
                  (revokedCerts, n) = revoke_lines clk n individualCerts []
              in case ParsePrivateKeyPEM env keyFile of
                   Inl err \<Rightarrow> Inl (External err)
                 | Inr key \<Rightarrow>
                     CreateGenericCRL env clk n revokedCerts key issuerCert newExpiryTime))"

section \<open>The record store\<close>

record CertificateRecord =
  Serial :: string
  CALabel :: string
  Status :: string
  Reason :: int
  Expiry :: Time
  RevokedAt :: Time
  PEM :: string

record OCSPRecord =
  Serial' :: string
  Body :: string
  Expiry' :: Time

text \<open>The zero \<^verbatim>\<open>time.Time\<close>, which a struct literal gives to a field it leaves out.\<close>

definition zeroTime :: Time where
  "zeroTime = \<lparr>nanos = 0, loc = LocUTC\<rparr>"

subsection \<open>The database handle\<close>

text \<open>
  The statements of the store. The source holds them as SQL text in constants of these
  names; what a statement does is up to the database behind the handle.
\<close>

datatype query =
    insertSQL | selectSQL | selectAllSQL | selectAllUnexpiredSQL | updateRevokeSQL
  | insertOCSPSQL | updateOCSPSQL | selectAllUnexpiredOCSPSQL | selectOCSPSQL
  | selectAllRevokedSQL

datatype arg = CertArg CertificateRecord | OCSPArg OCSPRecord

text \<open>
  \<^verbatim>\<open>sql.Result\<close>: its method \<^verbatim>\<open>RowsAffected()\<close> returns a count and an error.
\<close>

record 'x Result =
  RowsAffected :: "int \<times> 'x option"

text \<open>
  The methods of \<^verbatim>\<open>*sqlx.DB\<close> that the store calls, over a database state \<open>'db\<close>.
  \<open>NamedExec\<close> runs a statement with the named parameters taken from a record and
  leaves a new state; \<open>Get\<close> reads one row, \<open>Select\<close> all rows of a query.
\<close>

record ('db, 'x) sqlx =
  NamedExec :: "'db \<Rightarrow> query \<Rightarrow> arg \<Rightarrow> ('x + 'x Result) \<times> 'db"
  Get_certificate :: "'db \<Rightarrow> query \<Rightarrow> string \<Rightarrow> 'x + CertificateRecord"
  Select_certificates :: "'db \<Rightarrow> query \<Rightarrow> 'x + CertificateRecord list"
  Get_ocsp :: "'db \<Rightarrow> query \<Rightarrow> string \<Rightarrow> 'x + OCSPRecord"
  Select_ocsps :: "'db \<Rightarrow> query \<Rightarrow> 'x + OCSPRecord list"

subsection \<open>The operations\<close>

fun wrapCertStoreError :: "'x error option \<Rightarrow> 'x error option" where
  "wrapCertStoreError (Some err) = Some (Wrap CertStoreError Unknown err)"
| "wrapCertStoreError None = None"

definition InsertCertificate ::
  "('db, 'x) sqlx \<Rightarrow> 'db \<Rightarrow> CertificateRecord \<Rightarrow> 'x error option \<times> 'db" where
  "InsertCertificate X db cr =
     (case NamedExec X db insertSQL (CertArg \<lparr>
             Serial = Serial cr,
             CALabel = CALabel cr,
             Status = Status cr,
             Reason = Reason cr,
             Expiry = UTC (Expiry cr),
             RevokedAt = UTC (RevokedAt cr),
             PEM = PEM cr\<rparr>) of
        (Inl err, db') \<Rightarrow> (wrapCertStoreError (Some (External err)), db')
      | (Inr res, db') \<Rightarrow>
          (let (numRowsAffected, err) = RowsAffected res
           in if numRowsAffected = 0 then
                (Some (Wrap CertStoreError InsertionFailed
                   (Errorf ''failed to insert the certificate record'' [])), db')
              else if numRowsAffected \<noteq> 1 then
                (wrapCertStoreError
                   (Some (Errorf ''%d rows are affected, should be 1 row'' [numRowsAffected])), db')
              else (map_option External err, db')))"

definition GetCertificate ::
  "('db, 'x) sqlx \<Rightarrow> 'db \<Rightarrow> string \<Rightarrow> 'x error + CertificateRecord" where
  "GetCertificate X db serial =
     (case Get_certificate X db selectSQL serial of
        Inl err \<Rightarrow> Inl (Wrap CertStoreError Unknown (External err))
      | Inr cr \<Rightarrow> Inr cr)"

definition GetUnexpiredCertificates ::
  "('db, 'x) sqlx \<Rightarrow> 'db \<Rightarrow> 'x error + CertificateRecord list" where
  "GetUnexpiredCertificates X db =
     (case Select_certificates X db selectAllUnexpiredSQL of
        Inl err \<Rightarrow> Inl (Wrap CertStoreError Unknown (External err))
      | Inr crs \<Rightarrow> Inr crs)"

definition RevokeCertificate ::
  "('db, 'x) sqlx \<Rightarrow> 'db \<Rightarrow> string \<Rightarrow> int \<Rightarrow> 'x error option \<times> 'db" where
  "RevokeCertificate X db serial reasonCode =
     (case NamedExec X db updateRevokeSQL (CertArg \<lparr>
             Serial = serial,
             CALabel = [],
             Status = [],
             Reason = reasonCode,
             Expiry = zeroTime,
             RevokedAt = zeroTime,
             PEM = []\<rparr>) of
        (Inl err, db') \<Rightarrow> (wrapCertStoreError (Some (External err)), db')
      | (Inr result, db') \<Rightarrow>
          (let (numRowsAffected, err) = RowsAffected result
           in if numRowsAffected = 0 then
                (Some (Wrap CertStoreError RecordNotFound
                   (Errorf ''failed to revoke the certificate: certificate not found'' [])), db')
              else if numRowsAffected \<noteq> 1 then
                (wrapCertStoreError
                   (Some (Errorf ''%d rows are affected, should be 1 row'' [numRowsAffected])), db')
              else (map_option External err, db')))"

definition InsertOCSP ::
  "('db, 'x) sqlx \<Rightarrow> 'db \<Rightarrow> OCSPRecord \<Rightarrow> 'x error option \<times> 'db" where
  "InsertOCSP X db rr =
     (case NamedExec X db insertOCSPSQL (OCSPArg \<lparr>
             Serial' = Serial' rr,
             Body = Body rr,
             Expiry' = UTC (Expiry' rr)\<rparr>) of
        (Inl err, db') \<Rightarrow> (wrapCertStoreError (Some (External err)), db')
      | (Inr res, db') \<Rightarrow>
          (let (numRowsAffected, err) = RowsAffected res
           in if numRowsAffected = 0 then
                (Some (Wrap CertStoreError InsertionFailed
                   (Errorf ''failed to insert the OCSP record'' [])), db')
              else if numRowsAffected \<noteq> 1 then
                (wrapCertStoreError
                   (Some (Errorf ''%d rows are affected, should be 1 row'' [numRowsAffected])), db')
              else (map_option External err, db')))"

definition GetOCSP ::
  "('db, 'x) sqlx \<Rightarrow> 'db \<Rightarrow> string \<Rightarrow> 'x error + OCSPRecord" where
  "GetOCSP X db serial =
     (case Get_ocsp X db selectOCSPSQL serial of
        Inl err \<Rightarrow> Inl (Wrap CertStoreError Unknown (External err))
      | Inr rr \<Rightarrow> Inr rr)"

definition GetUnexpiredOCSPs ::
  "('db, 'x) sqlx \<Rightarrow> 'db \<Rightarrow> 'x error + OCSPRecord list" where
  "GetUnexpiredOCSPs X db =
     (case Select_ocsps X db selectAllUnexpiredOCSPSQL of
        Inl err \<Rightarrow> Inl (Wrap CertStoreError Unknown (External err))
      | Inr rrs \<Rightarrow> Inr rrs)"

definition UpdateOCSP ::
  "('db, 'x) sqlx \<Rightarrow> 'db \<Rightarrow> string \<Rightarrow> string \<Rightarrow> Time \<Rightarrow> 'x error option \<times> 'db" where
  "UpdateOCSP X db serial body expiry =
     (case NamedExec X db updateOCSPSQL (OCSPArg \<lparr>
             Serial' = serial,
             Body = body,
             Expiry' = UTC expiry\<rparr>) of
        (Inl err, db') \<Rightarrow> (wrapCertStoreError (Some (External err)), db')
      | (Inr result, db') \<Rightarrow>
          (let (numRowsAffected, err) = RowsAffected result
           in if numRowsAffected = 0 then
                (Some (Wrap CertStoreError RecordNotFound
                   (Errorf ''failed to update the OCSP record'' [])), db')
              else if numRowsAffected \<noteq> 1 then
                (wrapCertStoreError
                   (Some (Errorf ''%d rows are affected, should be 1 row'' [numRowsAffected])), db')
              else (map_option External err, db')))"

definition UpsertOCSP ::
  "('db, 'x) sqlx \<Rightarrow> 'db \<Rightarrow> string \<Rightarrow> string \<Rightarrow> Time \<Rightarrow> 'x error option \<times> 'db" where
  "UpsertOCSP X db serial body expiry =
     (case NamedExec X db updateOCSPSQL (OCSPArg \<lparr>
             Serial' = serial,
             Body = body,
             Expiry' = UTC expiry\<rparr>) of
        (Inl err, db') \<Rightarrow> (wrapCertStoreError (Some (External err)), db')
      | (Inr result, db') \<Rightarrow>
          (let (numRowsAffected, err) = RowsAffected result
           in if numRowsAffected = 0 then
                InsertOCSP X db' \<lparr>Serial' = serial, Body = body, Expiry' = expiry\<rparr>
              else if numRowsAffected \<noteq> 1 then
                (wrapCertStoreError
                   (Some (Errorf ''%d rows are affected, should be 1 row'' [numRowsAffected])), db')
              else (map_option External err, db')))"

text \<open>
  Modelled from the spec: \<^verbatim>\<open>GetRevokedCertificates\<close>, which the assembler calls and the
  store's source file does not contain. The spec describes it as the enumeration of all
  records with status \<^verbatim>\<open>revoked\<close>, "certificate store rows where status='revoked'",
  not limited to unexpired ones; it is written here on the pattern of
  \<open>GetUnexpiredCertificates\<close>, with a statement \<open>selectAllRevokedSQL\<close> of its own.
\<close>

definition GetRevokedCertificates ::
  "('db, 'x) sqlx \<Rightarrow> 'db \<Rightarrow> 'x error + CertificateRecord list" where
  "GetRevokedCertificates X db =
     (case Select_certificates X db selectAllRevokedSQL of
        Inl err \<Rightarrow> Inl (Wrap CertStoreError Unknown (External err))
      | Inr crs \<Rightarrow> Inr crs)"

subsection \<open>A database in memory\<close>

text \<open>
  A database behind the handle, to say what the statements do to the stored rows: the
  two relations as lists of rows and the server's clock. An insert appends its row, an
  update rewrites every row its \<^verbatim>\<open>WHERE\<close> clause matches and counts the rows matched,
  and the counts come without error.

  Modelled from the spec: the schema, which a migration outside the store's source
  creates. Of it the engine keeps that \<^verbatim>\<open>serial\<close> is the primary key of each relation,
  so that an insert of a serial already present fails in the driver, and that nothing
  ties a row of one relation to a row of the other.
\<close>

record DB =
  certificates :: "CertificateRecord list"
  ocsp_responses :: "OCSPRecord list"
  CURRENT_TIMESTAMP :: Time

datatype sql_error = ErrNoRows | ErrConstraint | ErrStatement

definition revoke_row :: "Time \<Rightarrow> CertificateRecord \<Rightarrow> CertificateRecord \<Rightarrow> CertificateRecord" where
  "revoke_row now a r =
     (if Serial r = Serial a
      then r\<lparr>Status := ''revoked'', RevokedAt := now, Reason := Reason a\<rparr>
      else r)"

definition update_ocsp_row :: "OCSPRecord \<Rightarrow> OCSPRecord \<Rightarrow> OCSPRecord" where
  "update_ocsp_row a r =
     (if Serial' r = Serial' a then r\<lparr>Expiry' := Expiry' a, Body := Body a\<rparr> else r)"

fun mem_NamedExec :: "DB \<Rightarrow> query \<Rightarrow> arg \<Rightarrow> (sql_error + sql_error Result) \<times> DB" where
  "mem_NamedExec db insertSQL (CertArg a) =
     (if Serial a \<in> set (map Serial (certificates db)) then (Inl ErrConstraint, db)
      else (Inr \<lparr>RowsAffected = (1, None)\<rparr>, db\<lparr>certificates := certificates db @ [a]\<rparr>))"
| "mem_NamedExec db updateRevokeSQL (CertArg a) =
     (Inr \<lparr>RowsAffected =
             (int (length (filter (\<lambda>r. Serial r = Serial a) (certificates db))), None)\<rparr>,
      db\<lparr>certificates := map (revoke_row (CURRENT_TIMESTAMP db) a) (certificates db)\<rparr>)"
| "mem_NamedExec db insertOCSPSQL (OCSPArg a) =
     (if Serial' a \<in> set (map Serial' (ocsp_responses db)) then (Inl ErrConstraint, db)
      else (Inr \<lparr>RowsAffected = (1, None)\<rparr>, db\<lparr>ocsp_responses := ocsp_responses db @ [a]\<rparr>))"
| "mem_NamedExec db updateOCSPSQL (OCSPArg a) =
     (Inr \<lparr>RowsAffected =
             (int (length (filter (\<lambda>r. Serial' r = Serial' a) (ocsp_responses db))), None)\<rparr>,
      db\<lparr>ocsp_responses := map (update_ocsp_row a) (ocsp_responses db)\<rparr>)"
| "mem_NamedExec db _ _ = (Inl ErrStatement, db)"

fun mem_Get_certificate :: "DB \<Rightarrow> query \<Rightarrow> string \<Rightarrow> sql_error + CertificateRecord" where
  "mem_Get_certificate db selectSQL serial =
     (case find (\<lambda>r. Serial r = serial) (certificates db) of
        None \<Rightarrow> Inl ErrNoRows
      | Some r \<Rightarrow> Inr r)"
| "mem_Get_certificate db _ serial = Inl ErrStatement"

fun mem_Select_certificates :: "DB \<Rightarrow> query \<Rightarrow> sql_error + CertificateRecord list" where
  "mem_Select_certificates db selectAllSQL = Inr (certificates db)"
| "mem_Select_certificates db selectAllUnexpiredSQL =
     Inr (filter (\<lambda>r. nanos (CURRENT_TIMESTAMP db) < nanos (Expiry r)) (certificates db))"
| "mem_Select_certificates db selectAllRevokedSQL =
     Inr (filter (\<lambda>r. Status r = ''revoked'') (certificates db))"
| "mem_Select_certificates db _ = Inl ErrStatement"

fun mem_Get_ocsp :: "DB \<Rightarrow> query \<Rightarrow> string \<Rightarrow> sql_error + OCSPRecord" where
  "mem_Get_ocsp db selectOCSPSQL serial =
     (case find (\<lambda>r. Serial' r = serial) (ocsp_responses db) of
        None \<Rightarrow> Inl ErrNoRows
      | Some r \<Rightarrow> Inr r)"
| "mem_Get_ocsp db _ serial = Inl ErrStatement"

fun mem_Select_ocsps :: "DB \<Rightarrow> query \<Rightarrow> sql_error + OCSPRecord list" where
  "mem_Select_ocsps db selectAllUnexpiredOCSPSQL =
     Inr (filter (\<lambda>r. nanos (CURRENT_TIMESTAMP db) < nanos (Expiry' r)) (ocsp_responses db))"
| "mem_Select_ocsps db _ = Inl ErrStatement"

definition memdb :: "(DB, sql_error) sqlx" where
  "memdb = \<lparr>NamedExec = mem_NamedExec,
            Get_certificate = mem_Get_certificate,
            Select_certificates = mem_Select_certificates,
            Get_ocsp = mem_Get_ocsp,
            Select_ocsps = mem_Select_ocsps\<rparr>"

section \<open>The assembler's database path\<close>

text \<open>The loop over the revoked records, with the slice it appends to.\<close>

fun revoke_records ::
  "CertificateRecord list \<Rightarrow> RevokedCertificate list \<Rightarrow> RevokedCertificate list" where
  "revoke_records [] revokedCerts = revokedCerts"
| "revoke_records (cr # dbRevoked) revokedCerts =
     (let tempBigInt = fst (SetString (Serial cr));
          tempCert = \<lparr>SerialNumber = tempBigInt, RevocationTime = RevokedAt cr\<rparr>
      in revoke_records dbRevoked (revokedCerts @ [tempCert]))"

definition NewCRLFromDB ::
  "('c, 'k, 's, 'x) crypto \<Rightarrow> clock \<Rightarrow> ('db, 'x) sqlx \<Rightarrow> 'db \<Rightarrow> string \<Rightarrow> string \<Rightarrow> Duration
     \<Rightarrow> 'x error + ('c, 's) CertificateList" where
  "NewCRLFromDB env clk X db issuerFile keyFile expiryDuration =
     (let newExpiryTime = Add (clk 0) expiryDuration;
          (newExpiryTime, n) =
             (if expiryDuration = 0 then (Add (clk 1) oneWeek, 2) else (newExpiryTime, 1))
      in case ParseCertificatePEM env issuerFile of
           Inl err \<Rightarrow> Inl (External err)
         | Inr issuerCert \<Rightarrow>
             (case ParsePrivateKeyPEM env keyFile of
                Inl err \<Rightarrow> Inl (External err)
              | Inr key \<Rightarrow>
                  (case GetRevokedCertificates X db of
                     Inl err \<Rightarrow> Inl err
                   | Inr dbRevoked \<Rightarrow>
                       CreateGenericCRL env clk n (revoke_records dbRevoked []) key issuerCert
                         newExpiryTime)))"

section \<open>The \<^verbatim>\<open>gencrl\<close> command\<close>

record Config =
  CAFile :: string
  CAKeyFile :: string
  CRLExpiry :: Duration
  DBConfigFile :: string

text \<open>
  The helpers of the \<^verbatim>\<open>cli\<close> and \<^verbatim>\<open>certdb\<close> packages that the command calls are
  parameters. What the command does to the outside is recorded as a list of actions, in
  the order in which it does them.
\<close>

record ('db, 'x) cli =
  ReadStdin :: "string \<Rightarrow> 'x + string"
  PopFirstArgument :: "string list \<Rightarrow> 'x + string \<times> string list"
  DBFromConfig :: "string \<Rightarrow> 'x + 'db"

datatype ('c, 's) action =
    Read string
  | OpenDB string
  | Assemble
  | PrintCRL "('c, 's) CertificateList"

definition gencrlMain ::
  "('db, 'x) cli \<Rightarrow> ('c, 'k, 's, 'x) crypto \<Rightarrow> clock \<Rightarrow> ('db, 'x) sqlx \<Rightarrow> string list \<Rightarrow> Config
     \<Rightarrow> 'x error option \<times> ('c, 's) action list" where
  "gencrlMain io env clk X args c =
     (if DBConfigFile c \<noteq> [] \<and> length args > 0 then
        (Some (New
           ''Only provide either DB config file (with -db-config) or serial list''), [])
      else if DBConfigFile c = [] \<and> length args = 0 then
        (Some (New
           ''Need to provide either DB config file (with -db-config) or serial list''), [])
      else if DBConfigFile c = [] \<and> length args > 1 then
        (Some (New ''Provided too many arguments, only expected one''), [])
      else if CAFile c = [] then
        (Some (New ''Need a CA certificate (provide one with -ca)''), [])
      else if CAKeyFile c = [] then
        (Some (New ''Need a CA key (provide one with -ca-key)''), [])
      else
        (case ReadStdin io (CAFile c) of
           Inl err \<Rightarrow> (Some (External err), [Read (CAFile c)])
         | Inr certFileBytes \<Rightarrow>
        (case ReadStdin io (CAKeyFile c) of
           Inl err \<Rightarrow> (Some (External err), [Read (CAFile c), Read (CAKeyFile c)])
         | Inr keyBytes \<Rightarrow>
        (let reads = [Read (CAFile c), Read (CAKeyFile c)]
         in if DBConfigFile c = [] then
              (case PopFirstArgument io args of
                 Inl err \<Rightarrow> (Some (External err), reads)
               | Inr (serialList, _) \<Rightarrow>
              (case ReadStdin io serialList of
                 Inl err \<Rightarrow> (Some (External err), reads @ [Read serialList])
               | Inr serialListBytes \<Rightarrow>
              (case NewCRLFromFile env clk serialListBytes certFileBytes keyBytes
                      (CRLExpiry c) of
                 Inl err \<Rightarrow> (Some err, reads @ [Read serialList, Assemble])
               | Inr req \<Rightarrow> (None, reads @ [Read serialList, Assemble, PrintCRL req]))))
            else
              (case DBFromConfig io (DBConfigFile c) of
                 Inl err \<Rightarrow> (Some (External err), reads @ [OpenDB (DBConfigFile c)])
               | Inr db \<Rightarrow>
              (case NewCRLFromDB env clk X db certFileBytes keyBytes (CRLExpiry c) of
                 Inl err \<Rightarrow> (Some err, reads @ [OpenDB (DBConfigFile c), Assemble])
               | Inr req \<Rightarrow>
                   (None, reads @ [OpenDB (DBConfigFile c), Assemble, PrintCRL req])))))))"

section \<open>The serial-list file format\<close>

text \<open>
  The format of the serial list as the specification gives it: lines joined by line
  feeds, a serial number being a non-empty run of decimal digits, read in positional
  notation.
\<close>

fun join_lines :: "string list \<Rightarrow> string" where
  "join_lines [] = []"
| "join_lines [l] = l"
| "join_lines (l # l' # ls) = l @ newline # join_lines (l' # ls)"

definition decimal :: "string \<Rightarrow> bool" where
  "decimal s \<longleftrightarrow> s \<noteq> [] \<and> list_all is_digit s"

definition decimal_value :: "string \<Rightarrow> nat" where
  "decimal_value s = (\<Sum>i<length s. digit_val (s ! i) * 10 ^ (length s - Suc i))"

text \<open>A line with no line feed in it that \<^verbatim>\<open>TrimSpace\<close> empties.\<close>

definition blank :: "string \<Rightarrow> bool" where
  "blank s \<longleftrightarrow> TrimSpace_empty s \<and> newline \<notin> set s"

section \<open>Sample collaborators\<close>

text \<open>
  Collaborators that accept whatever they are given, and a clock that advances by one
  nanosecond with each reading, for running the assembler on concrete inputs.
\<close>

definition accepting_crypto :: "(string, string, unit, sql_error) crypto" where
  "accepting_crypto =
     \<lparr>ParseCertificatePEM = Inr, ParsePrivateKeyPEM = Inr, Sign = (\<lambda>k c tbs. Inr ())\<rparr>"

definition tick_clock :: clock where
  "tick_clock n = \<lparr>nanos = int n, loc = Local\<rparr>"

text \<open>
  A clock that starts at 0.7 seconds and advances by one second with each reading.
\<close>

definition second_clock :: clock where
  "second_clock n = \<lparr>nanos = int n * 1000000000 + 700000000, loc = Local\<rparr>"

text \<open>
  A database with one good and one revoked certificate, and a database handle whose
  writes change nothing and report a fixed result.
\<close>

definition sample_db :: DB where
  "sample_db =
     \<lparr>certificates =
        [\<lparr>Serial = ''1'', CALabel = [], Status = ''good'', Reason = 0,
          Expiry = \<lparr>nanos = 900, loc = LocUTC\<rparr>, RevokedAt = zeroTime, PEM = ''unexpired cert''\<rparr>,
         \<lparr>Serial = ''2'', CALabel = [], Status = ''revoked'', Reason = 0,
          Expiry = \<lparr>nanos = 900, loc = LocUTC\<rparr>, RevokedAt = \<lparr>nanos = 500, loc = LocUTC\<rparr>,
          PEM = ''unexpired cert''\<rparr>],
      ocsp_responses = [\<lparr>Serial' = ''2'', Body = ''good'', Expiry' = \<lparr>nanos = 700, loc = LocUTC\<rparr>\<rparr>],
      CURRENT_TIMESTAMP = \<lparr>nanos = 600, loc = LocUTC\<rparr>\<rparr>"

definition reporting :: "int \<times> sql_error option \<Rightarrow> (unit, sql_error) sqlx" where
  "reporting r =
     \<lparr>NamedExec = (\<lambda>db q a. (Inr \<lparr>RowsAffected = r\<rparr>, db)),
      Get_certificate = (\<lambda>db q s. Inr \<lparr>Serial = s, CALabel = [], Status = [], Reason = 0,
         Expiry = zeroTime, RevokedAt = zeroTime, PEM = []\<rparr>),
      Select_certificates = (\<lambda>db q. Inr []),
      Get_ocsp = (\<lambda>db q s. Inr \<lparr>Serial' = s, Body = [], Expiry' = zeroTime\<rparr>),
      Select_ocsps = (\<lambda>db q. Inr [])\<rparr>"

text \<open>
  A certificate record whose status is \<^verbatim>\<open>good\<close> although it has a revocation time.
\<close>

definition inconsistent_cert :: CertificateRecord where
  "inconsistent_cert =
     \<lparr>Serial = ''3'', CALabel = ''default'', Status = ''good'', Reason = 0,
      Expiry = \<lparr>nanos = 900, loc = Local\<rparr>, RevokedAt = \<lparr>nanos = 100, loc = Local\<rparr>,
      PEM = ''fake cert data''\<rparr>"

text \<open>
  Command-line helpers that read a file's path as its content, pop the first argument
  and open the sample database.
\<close>

definition sample_cli :: "(DB, sql_error) cli" where
  "sample_cli =
     \<lparr>ReadStdin = Inr,
      PopFirstArgument = (\<lambda>args. case args of [] \<Rightarrow> Inl ErrStatement | a # as \<Rightarrow> Inr (a, as)),
      DBFromConfig = (\<lambda>p. Inr sample_db)\<rparr>"

section \<open>Properties of the file path\<close>

lemma Split_no_nl: "newline \<notin> set l \<Longrightarrow> Split l = [l]"
  by (induction l) auto

lemma Split_append_nl: "newline \<notin> set l \<Longrightarrow> Split (l @ newline # s) = l # Split s"
  by (induction l) auto

lemma Split_join:
  "ls \<noteq> [] \<Longrightarrow> \<forall>l \<in> set ls. newline \<notin> set l \<Longrightarrow> Split (join_lines ls) = ls"
  by (induction ls rule: join_lines.induct) (auto simp: Split_no_nl Split_append_nl)

lemma digits_value_snoc: "digits_value (ds @ [d]) = 10 * digits_value ds + digit_val d"
  by (simp add: digits_value_def)

lemma digits_value_positional: "digits_value ds = decimal_value ds"
proof (induction ds rule: rev_induct)
  case Nil
  then show ?case by (simp add: digits_value_def decimal_value_def)
next
  case (snoc d ds)
  have "decimal_value (ds @ [d]) =
        (\<Sum>i<length ds. digit_val (ds ! i) * 10 ^ (Suc (length ds) - Suc i)) + digit_val d"
    by (simp add: decimal_value_def nth_append)
  also have "(\<Sum>i<length ds. digit_val (ds ! i) * 10 ^ (Suc (length ds) - Suc i)) =
             (\<Sum>i<length ds. 10 * (digit_val (ds ! i) * 10 ^ (length ds - Suc i)))"
    by (rule sum.cong) (auto simp flip: power_Suc simp: Suc_diff_Suc)
  also have "\<dots> = 10 * decimal_value ds"
    by (simp add: decimal_value_def sum_distrib_left)
  finally show ?case using snoc by (simp add: digits_value_snoc)
qed

lemma is_digit_not_sign: "is_digit c \<Longrightarrow> c \<noteq> CHR ''-'' \<and> c \<noteq> CHR ''+''"
  by (auto simp: is_digit_def)

lemma SetString_decimal: "decimal s \<Longrightarrow> SetString s = (int (decimal_value s), True)"
proof -
  assume d: "decimal s"
  then obtain c cs where s: "s = c # cs" by (cases s) (auto simp: decimal_def)
  from d s have c: "c \<noteq> CHR ''-''" "c \<noteq> CHR ''+''"
    using is_digit_not_sign [of c] by (auto simp: decimal_def)
  from d have tw: "takeWhile is_digit s = s" "dropWhile is_digit s = []"
    by (auto simp: decimal_def list_all_iff)
  show ?thesis
    unfolding s SetString_def
    by (simp add: Let_def digits_value_positional tw [unfolded s] c
          del: takeWhile.simps dropWhile.simps)
qed

lemma is_digit_not_space: "is_digit a \<Longrightarrow> \<not> TrimSpace_empty (a # s)"
proof -
  assume a: "is_digit a"
  then have 1: "\<not> asciiSpace a" by (auto simp: is_digit_def asciiSpace_def)
  from a have 2: "\<not> space2 a b" for b by (auto simp: is_digit_def space2_def)
  from a have 3: "\<not> space3 a b c" for b c by (auto simp: is_digit_def space3_def)
  show ?thesis
    by (cases "(a # s)" rule: TrimSpace_empty.cases) (use 1 2 3 in auto)
qed

lemma decimal_not_blank: "decimal l \<Longrightarrow> \<not> TrimSpace_empty l"
  by (cases l) (auto simp: decimal_def is_digit_not_space)

lemma decimal_no_newline: "decimal l \<Longrightarrow> newline \<notin> set l"
  by (auto simp: decimal_def is_digit_def newline_def list_all_iff)

lemma sint_oneWeek: "sint oneWeek = 604800 * 1000000000"
  by (simp add: oneWeek_def Second_def)

lemma NewCRLFromFile_parsed:
  assumes "ParseCertificatePEM env issuerFile = Inr c"
    and "ParsePrivateKeyPEM env keyFile = Inr k"
  shows "NewCRLFromFile env clk sl issuerFile keyFile d =
           CreateCRL env c k
             (fst (revoke_lines clk (if d = 0 then 2 else 1) (Split sl) []))
             (clk (snd (revoke_lines clk (if d = 0 then 2 else 1) (Split sl) [])))
             (if d = 0 then Add (clk 1) oneWeek else Add (clk 0) d)"
  using assms by (simp add: NewCRLFromFile_def CreateGenericCRL_def Let_def split: prod.splits)

lemma marshal_time_UTC: "marshal_time (UTC t) = marshal_time t"
  by (simp add: marshal_time_def UTC_def)

lemma CreateCRL_total:
  assumes "\<forall>tbs. \<exists>sig. Sign env k c tbs = Inr sig"
  shows "\<exists>crl. CreateCRL env c k rcs now expiry = Inr crl \<and>
           NextUpdate (TBSCertList crl) = marshal_time expiry \<and>
           ThisUpdate (TBSCertList crl) = marshal_time now \<and>
           RevokedCertificates (TBSCertList crl) =
              map (\<lambda>rc. rc\<lparr>RevocationTime := marshal_time (RevocationTime rc)\<rparr>) rcs"
proof -
  let ?tbs = "marshal_tbs \<lparr>ThisUpdate = UTC now, NextUpdate = UTC expiry,
            RevokedCertificates =
              map (\<lambda>rc. rc\<lparr>RevocationTime := UTC (RevocationTime rc)\<rparr>) rcs\<rparr>"
  from assms obtain sig where "Sign env k c ?tbs = Inr sig"
    by blast
  then have "CreateCRL env c k rcs now expiry =
      Inr \<lparr>Issuer = c, TBSCertList = ?tbs, SignatureValue = sig\<rparr>"
    by (simp add: CreateCRL_def Let_def)
  then show ?thesis
    by (simp add: marshal_tbs_def marshal_time_UTC o_def)
qed

lemma revoke_lines_serials:
  "map SerialNumber (fst (revoke_lines clk n ls acc)) =
     map SerialNumber acc @ map (\<lambda>v. fst (SetString v)) (filter (\<lambda>v. \<not> TrimSpace_empty v) ls)"
  by (induction ls arbitrary: n acc) (auto simp: Let_def)

lemma serials_of_lines:
  assumes "\<forall>l \<in> set ls. decimal l \<or> blank l"
  shows "map (\<lambda>v. fst (SetString v)) (filter (\<lambda>v. \<not> TrimSpace_empty v) ls) =
         map (\<lambda>l. int (decimal_value l)) (filter decimal ls)"
  using assms
  by (induction ls) (auto simp: SetString_decimal decimal_not_blank blank_def)

lemma Split_join_filter:
  assumes "\<forall>l \<in> set ls. newline \<notin> set l"
  shows "filter (\<lambda>v. \<not> TrimSpace_empty v) (Split (join_lines ls)) =
         filter (\<lambda>v. \<not> TrimSpace_empty v) ls"
proof (cases "ls = []")
  case True
  then show ?thesis by simp
next
  case False
  with assms show ?thesis by (simp add: Split_join)
qed

text \<open>
  Claim C1. A serial list whose lines are decimal serial numbers or blank lines gives a
  CRL with one revoked entry for each serial number, in the order of the lines and with
  the number the line denotes; the blank lines leave nothing. A list of blank lines only
  therefore gives a CRL with no revoked entry. The issuer certificate and the key are
  taken to parse and the signing primitive to succeed.
\<close>

theorem NewCRLFromFile_serials:
  assumes lines: "\<forall>l \<in> set ls. decimal l \<or> blank l"
    and cert: "ParseCertificatePEM env issuerFile = Inr c"
    and key: "ParsePrivateKeyPEM env keyFile = Inr k"
    and sign: "\<forall>tbs. \<exists>sig. Sign env k c tbs = Inr sig"
  shows "\<exists>crl. NewCRLFromFile env clk (join_lines ls) issuerFile keyFile d = Inr crl \<and>
           map SerialNumber (RevokedCertificates (TBSCertList crl)) =
             map (\<lambda>l. int (decimal_value l)) (filter decimal ls) \<and>
           length (RevokedCertificates (TBSCertList crl)) = length (filter decimal ls)"
proof -
  let ?n = "if d = 0 then 2 else (1::nat)"
  from lines have nl: "\<forall>l \<in> set ls. newline \<notin> set l"
    by (auto simp: blank_def decimal_no_newline)
  obtain crl where crl: "NewCRLFromFile env clk (join_lines ls) issuerFile keyFile d = Inr crl"
    and rc: "RevokedCertificates (TBSCertList crl) =
       map (\<lambda>rc. rc\<lparr>RevocationTime := marshal_time (RevocationTime rc)\<rparr>)
         (fst (revoke_lines clk ?n (Split (join_lines ls)) []))"
    using CreateCRL_total [OF sign] unfolding NewCRLFromFile_parsed [OF cert key] by blast
  have "map SerialNumber (RevokedCertificates (TBSCertList crl)) =
        map (\<lambda>v. fst (SetString v)) (filter (\<lambda>v. \<not> TrimSpace_empty v) (Split (join_lines ls)))"
    unfolding rc by (simp add: o_def revoke_lines_serials)
  also have "\<dots> = map (\<lambda>l. int (decimal_value l)) (filter decimal ls)"
    unfolding Split_join_filter [OF nl] by (rule serials_of_lines [OF lines])
  finally have "map SerialNumber (RevokedCertificates (TBSCertList crl)) =
     map (\<lambda>l. int (decimal_value l)) (filter decimal ls)" .
  moreover from this have "length (RevokedCertificates (TBSCertList crl)) = length (filter decimal ls)"
    using length_map by metis
  ultimately show ?thesis using crl by blast
qed


theorem NewCRLFromFile_serials_witness:
  "decimal ''10'' \<and> blank [] \<and> blank '' '' \<and> decimal ''20'' \<and> decimal ''30'' \<and>
   (\<exists>crl. NewCRLFromFile accepting_crypto tick_clock
             (join_lines [''10'', [], '' '', ''20'', ''30'']) [] [] 0 = Inr crl \<and>
      map SerialNumber (RevokedCertificates (TBSCertList crl)) = [10, 20, 30] \<and>
      length (RevokedCertificates (TBSCertList crl)) = 3)"
proof -
  have d: "decimal ''10''" "decimal ''20''" "decimal ''30''"
    by (simp_all add: decimal_def is_digit_def)
  have b: "blank []" "blank '' ''"
    by (simp_all add: blank_def asciiSpace_def newline_def)
  have v: "decimal_value ''10'' = 10" "decimal_value ''20'' = 20" "decimal_value ''30'' = 30"
    by (simp_all add: decimal_value_def lessThan_Suc numeral_2_eq_2 digit_val_def)
  have nb: "\<not> decimal []" "\<not> decimal '' ''"
    by (simp_all add: decimal_def is_digit_def)
  have lines: "\<forall>l \<in> set [''10'', [], '' '', ''20'', ''30'']. decimal l \<or> blank l"
    using d b by simp
  have c: "ParseCertificatePEM accepting_crypto [] = Inr []"
    and k: "ParsePrivateKeyPEM accepting_crypto [] = Inr []"
    and s: "\<forall>tbs. \<exists>sig. Sign accepting_crypto [] [] tbs = Inr sig"
    by (simp_all add: accepting_crypto_def)
  from NewCRLFromFile_serials [OF lines c k s, of tick_clock 0] d b v nb
  show ?thesis by (simp add: numeral_3_eq_3)
qed

text \<open>
  Claim C2, as stated, fails: the line \<^verbatim>\<open>12abc\<close> is not blank and does not parse, and
  its entry carries the serial 12, not zero.
\<close>

theorem NewCRLFromFile_unparsable_counterexample:
  "\<not> TrimSpace_empty ''12abc'' \<and> \<not> snd (SetString ''12abc'') \<and>
   NewCRLFromFile accepting_crypto tick_clock ''12abc'' [] [] 0 =
     Inr \<lparr>Issuer = [],
          TBSCertList = \<lparr>ThisUpdate = \<lparr>nanos = 0, loc = LocUTC\<rparr>,
            NextUpdate = \<lparr>nanos = 604800000000000, loc = LocUTC\<rparr>,
            RevokedCertificates =
              [\<lparr>SerialNumber = 12, RevocationTime = \<lparr>nanos = 0, loc = LocUTC\<rparr>\<rparr>]\<rparr>,
          SignatureValue = ()\<rparr>"
  by (simp add: NewCRLFromFile_def CreateGenericCRL_def CreateCRL_def accepting_crypto_def
        tick_clock_def SetString_def is_digit_def digits_value_def digit_val_def newline_def
        asciiSpace_def space2_def space3_def UTC_def Add_def oneWeek_def Second_def Let_def
        marshal_tbs_def marshal_time_def)

lemma SetString_trailing:
  assumes "decimal ds" and "rest \<noteq> []" and "\<not> is_digit (hd rest)"
  shows "SetString (ds @ rest) = (int (decimal_value ds), False)"
proof -
  from assms(1) obtain c cs where ds: "ds = c # cs" by (cases ds) (auto simp: decimal_def)
  from assms(1) ds have c: "c \<noteq> CHR ''-''" "c \<noteq> CHR ''+''"
    using is_digit_not_sign [of c] by (auto simp: decimal_def)
  from assms obtain r rs where rest: "rest = r # rs" "\<not> is_digit r" by (cases rest) auto
  from assms(1) rest have tw: "takeWhile is_digit (ds @ rest) = ds"
    "dropWhile is_digit (ds @ rest) = rest"
    by (auto simp: decimal_def list_all_iff takeWhile_append2 dropWhile_append2)
  have "ds \<noteq> []" using ds by simp
  then show ?thesis
    using tw c rest unfolding SetString_def ds
    by (simp add: Let_def digits_value_positional del: takeWhile.simps dropWhile.simps
         takeWhile_append2 dropWhile_append2)
qed

lemma SetString_no_digit:
  assumes "l \<noteq> []" and "\<not> is_digit (hd l)" and "hd l \<noteq> CHR ''-''" and "hd l \<noteq> CHR ''+''"
  shows "SetString l = (0, False)"
  using assms by (cases l) (auto simp: SetString_def)

text \<open>
  Claim C2, amended. Every line that is not blank gives one revoked entry, whether it
  parses or not, and no line makes the assembler fail. The serial of the entry is what
  the parse left in the big integer: zero for a line that starts with neither a digit
  nor a sign, and the value of the leading digits for digits followed by something else.
\<close>

theorem NewCRLFromFile_unparsable_lines:
  assumes nl: "\<forall>l \<in> set ls. newline \<notin> set l"
    and cert: "ParseCertificatePEM env issuerFile = Inr c"
    and key: "ParsePrivateKeyPEM env keyFile = Inr k"
    and sign: "\<forall>tbs. \<exists>sig. Sign env k c tbs = Inr sig"
  shows "(\<exists>crl. NewCRLFromFile env clk (join_lines ls) issuerFile keyFile d = Inr crl \<and>
            map SerialNumber (RevokedCertificates (TBSCertList crl)) =
              map (\<lambda>l. fst (SetString l)) (filter (\<lambda>l. \<not> TrimSpace_empty l) ls)) \<and>
         (\<forall>l. l \<noteq> [] \<and> \<not> is_digit (hd l) \<and> hd l \<noteq> CHR ''-'' \<and> hd l \<noteq> CHR ''+''
               \<longrightarrow> SetString l = (0, False)) \<and>
         (\<forall>ds rest. decimal ds \<and> rest \<noteq> [] \<and> \<not> is_digit (hd rest)
               \<longrightarrow> SetString (ds @ rest) = (int (decimal_value ds), False))"
proof -
  let ?n = "if d = 0 then 2 else (1::nat)"
  obtain crl where crl: "NewCRLFromFile env clk (join_lines ls) issuerFile keyFile d = Inr crl"
    and rc: "RevokedCertificates (TBSCertList crl) =
       map (\<lambda>rc. rc\<lparr>RevocationTime := marshal_time (RevocationTime rc)\<rparr>)
         (fst (revoke_lines clk ?n (Split (join_lines ls)) []))"
    using CreateCRL_total [OF sign] unfolding NewCRLFromFile_parsed [OF cert key] by blast
  have "map SerialNumber (RevokedCertificates (TBSCertList crl)) =
        map (\<lambda>v. fst (SetString v)) (filter (\<lambda>v. \<not> TrimSpace_empty v) (Split (join_lines ls)))"
    unfolding rc by (simp add: o_def revoke_lines_serials)
  then have "map SerialNumber (RevokedCertificates (TBSCertList crl)) =
        map (\<lambda>l. fst (SetString l)) (filter (\<lambda>l. \<not> TrimSpace_empty l) ls)"
    unfolding Split_join_filter [OF nl] .
  with crl show ?thesis
    using SetString_no_digit SetString_trailing by blast
qed

theorem NewCRLFromFile_unparsable_lines_witness:
  "newline \<notin> set ''12abc'' \<and> newline \<notin> set ''abc'' \<and>
   \<not> is_digit (hd ''abc'') \<and> decimal ''12'' \<and>
   (\<exists>crl. NewCRLFromFile accepting_crypto tick_clock
             (join_lines [''12abc'', ''abc'']) [] [] 0 = Inr crl \<and>
      map SerialNumber (RevokedCertificates (TBSCertList crl)) = [12, 0]) \<and>
   SetString ''abc'' = (0, False) \<and> SetString ''12abc'' = (12, False)"
proof -
  have nl: "\<forall>l \<in> set [''12abc'', ''abc'']. newline \<notin> set l"
    by (simp add: newline_def)
  have c: "ParseCertificatePEM accepting_crypto [] = Inr []"
    and k: "ParsePrivateKeyPEM accepting_crypto [] = Inr []"
    and s: "\<forall>tbs. \<exists>sig. Sign accepting_crypto [] [] tbs = Inr sig"
    by (simp_all add: accepting_crypto_def)
  have e: "SetString ''abc'' = (0, False)" "SetString ''12abc'' = (12, False)"
    by (simp_all add: SetString_def is_digit_def digits_value_def digit_val_def)
  have nb: "\<not> TrimSpace_empty ''12abc''" "\<not> TrimSpace_empty ''abc''"
    by (simp_all add: asciiSpace_def space2_def space3_def)
  have d: "decimal ''12''" "\<not> is_digit (hd ''abc'')"
    by (simp_all add: decimal_def is_digit_def)
  from NewCRLFromFile_unparsable_lines [OF nl c k s, of tick_clock 0] e nb d
  show ?thesis by (simp add: newline_def)
qed

section \<open>Properties of the database path\<close>

lemma memdb_simps [simp]:
  "NamedExec memdb = mem_NamedExec"
  "Get_certificate memdb = mem_Get_certificate"
  "Select_certificates memdb = mem_Select_certificates"
  "Get_ocsp memdb = mem_Get_ocsp"
  "Select_ocsps memdb = mem_Select_ocsps"
  by (simp_all add: memdb_def)

lemma revoke_records_eq:
  "revoke_records rows acc =
     acc @ map (\<lambda>cr. \<lparr>SerialNumber = fst (SetString (Serial cr)), RevocationTime = RevokedAt cr\<rparr>) rows"
  by (induction rows arbitrary: acc) (simp_all add: Let_def)

lemma NewCRLFromFile_handed:
  assumes "ParseCertificatePEM env issuerFile = Inr c"
    and "ParsePrivateKeyPEM env keyFile = Inr k"
  shows "NewCRLFromFile env clk sl issuerFile keyFile d =
           CreateGenericCRL env clk
             (snd (revoke_lines clk (if d = 0 then 2 else 1) (Split sl) []))
             (fst (revoke_lines clk (if d = 0 then 2 else 1) (Split sl) [])) k c
             (if d = 0 then Add (clk 1) oneWeek else Add (clk 0) d)"
  using assms by (simp add: NewCRLFromFile_def Let_def split: prod.splits)

lemma NewCRLFromDB_handed:
  assumes "ParseCertificatePEM env issuerFile = Inr c"
    and "ParsePrivateKeyPEM env keyFile = Inr k"
    and "Select_certificates X db selectAllRevokedSQL = Inr rows"
  shows "NewCRLFromDB env clk X db issuerFile keyFile d =
           CreateGenericCRL env clk (if d = 0 then 2 else 1) (revoke_records rows []) k c
             (if d = 0 then Add (clk 1) oneWeek else Add (clk 0) d)"
  using assms by (simp add: NewCRLFromDB_def GetRevokedCertificates_def Let_def)

lemma nanos_expiry:
  "nanos (if d = 0 then Add (clk 1) oneWeek else Add (clk 0) d) =
     (if d = 0 then nanos (clk 1) + 604800 * 1000000000 else nanos (clk 0) + sint d)"
  by (simp add: Add_def sint_oneWeek)

lemma whole_seconds_week:
  "((x :: int) + 604800 * 1000000000) div 1000000000 * 1000000000 =
     x div 1000000000 * 1000000000 + 604800 * 1000000000"
proof -
  have "(x + 604800 * 1000000000) div 1000000000 = 604800 + x div 1000000000"
    by (rule div_mult_self1) simp
  then show ?thesis by (simp add: algebra_simps)
qed

lemma nanos_marshal_expiry:
  "nanos (marshal_time (if d = 0 then Add (clk 1) oneWeek else Add (clk 0) d)) =
     (if d = 0 then nanos (clk 1) div 1000000000 * 1000000000 + 604800 * 1000000000
      else (nanos (clk 0) + sint d) div 1000000000 * 1000000000)"
  using whole_seconds_week [of "nanos (clk 1)"]
  by (simp add: marshal_time_def Add_def sint_oneWeek)

lemma CreateGenericCRL_nextUpdate:
  assumes "\<forall>tbs. \<exists>sig. Sign env k c tbs = Inr sig"
  shows "\<exists>crl. CreateGenericCRL env clk n rcs k c
                  (if d = 0 then Add (clk 1) oneWeek else Add (clk 0) d) = Inr crl \<and>
           NextUpdate (TBSCertList crl) =
             marshal_time (if d = 0 then Add (clk 1) oneWeek else Add (clk 0) d) \<and>
           nanos (NextUpdate (TBSCertList crl)) =
             (if d = 0 then nanos (clk 1) div 1000000000 * 1000000000 + 604800 * 1000000000
              else (nanos (clk 0) + sint d) div 1000000000 * 1000000000)"
proof -
  obtain crl where "CreateGenericCRL env clk n rcs k c
        (if d = 0 then Add (clk 1) oneWeek else Add (clk 0) d) = Inr crl"
    and "NextUpdate (TBSCertList crl) =
       marshal_time (if d = 0 then Add (clk 1) oneWeek else Add (clk 0) d)"
    using CreateCRL_total [OF assms] unfolding CreateGenericCRL_def by blast
  then show ?thesis using nanos_marshal_expiry [of d clk] by auto
qed

text \<open>
  Claim C3. On both paths the expiry that the assembler resolves and hands to
  \<open>CreateGenericCRL\<close> as the CRL's \<^verbatim>\<open>nextUpdate\<close> is a reading of the clock plus
  604800 seconds (in nanoseconds) when the expiry duration given is zero, and a reading
  of the clock plus the duration given otherwise. With a zero duration the clock is read
  a second time and that reading counts. The CRL that comes back holds this instant as
  the encoding keeps it, in whole seconds: with a zero duration, the second of the
  reading plus 604800 seconds. The issuer certificate and the key are taken to parse,
  the signing primitive and the query for the revoked records to succeed.
\<close>

theorem nextUpdate_resolution:
  assumes cert: "ParseCertificatePEM env issuerFile = Inr c"
    and key: "ParsePrivateKeyPEM env keyFile = Inr k"
    and sign: "\<forall>tbs. \<exists>sig. Sign env k c tbs = Inr sig"
    and rows: "Select_certificates X db selectAllRevokedSQL = Inr rows"
  shows "NewCRLFromFile env clk serialList issuerFile keyFile d =
           CreateGenericCRL env clk
             (snd (revoke_lines clk (if d = 0 then 2 else 1) (Split serialList) []))
             (fst (revoke_lines clk (if d = 0 then 2 else 1) (Split serialList) [])) k c
             (if d = 0 then Add (clk 1) oneWeek else Add (clk 0) d) \<and>
         NewCRLFromDB env clk X db issuerFile keyFile d =
           CreateGenericCRL env clk (if d = 0 then 2 else 1) (revoke_records rows []) k c
             (if d = 0 then Add (clk 1) oneWeek else Add (clk 0) d) \<and>
         nanos (if d = 0 then Add (clk 1) oneWeek else Add (clk 0) d) =
           (if d = 0 then nanos (clk 1) + 604800 * 1000000000 else nanos (clk 0) + sint d) \<and>
         (\<exists>crl. NewCRLFromFile env clk serialList issuerFile keyFile d = Inr crl \<and>
            NextUpdate (TBSCertList crl) =
              marshal_time (if d = 0 then Add (clk 1) oneWeek else Add (clk 0) d) \<and>
            nanos (NextUpdate (TBSCertList crl)) =
              (if d = 0 then nanos (clk 1) div 1000000000 * 1000000000 + 604800 * 1000000000
               else (nanos (clk 0) + sint d) div 1000000000 * 1000000000)) \<and>
         (\<exists>crl. NewCRLFromDB env clk X db issuerFile keyFile d = Inr crl \<and>
            NextUpdate (TBSCertList crl) =
              marshal_time (if d = 0 then Add (clk 1) oneWeek else Add (clk 0) d) \<and>
            nanos (NextUpdate (TBSCertList crl)) =
              (if d = 0 then nanos (clk 1) div 1000000000 * 1000000000 + 604800 * 1000000000
               else (nanos (clk 0) + sint d) div 1000000000 * 1000000000))"
proof -
  note f = NewCRLFromFile_handed [OF cert key, of clk serialList d]
  note g = NewCRLFromDB_handed [OF cert key rows, of clk d]
  have "\<exists>crl. NewCRLFromFile env clk serialList issuerFile keyFile d = Inr crl \<and>
            NextUpdate (TBSCertList crl) =
              marshal_time (if d = 0 then Add (clk 1) oneWeek else Add (clk 0) d) \<and>
            nanos (NextUpdate (TBSCertList crl)) =
              (if d = 0 then nanos (clk 1) div 1000000000 * 1000000000 + 604800 * 1000000000
               else (nanos (clk 0) + sint d) div 1000000000 * 1000000000)"
    unfolding f by (rule CreateGenericCRL_nextUpdate [OF sign])
  moreover have "\<exists>crl. NewCRLFromDB env clk X db issuerFile keyFile d = Inr crl \<and>
            NextUpdate (TBSCertList crl) =
              marshal_time (if d = 0 then Add (clk 1) oneWeek else Add (clk 0) d) \<and>
            nanos (NextUpdate (TBSCertList crl)) =
              (if d = 0 then nanos (clk 1) div 1000000000 * 1000000000 + 604800 * 1000000000
               else (nanos (clk 0) + sint d) div 1000000000 * 1000000000)"
    unfolding g by (rule CreateGenericCRL_nextUpdate [OF sign])
  ultimately show ?thesis using f g nanos_expiry [of d clk] by blast
qed

theorem nextUpdate_resolution_witness:
  "ParseCertificatePEM accepting_crypto [] = Inr [] \<and>
   ParsePrivateKeyPEM accepting_crypto [] = Inr [] \<and>
   Select_certificates memdb sample_db selectAllRevokedSQL =
     Inr (filter (\<lambda>cr. Status cr = ''revoked'') (certificates sample_db)) \<and>
   nanos (Add (second_clock 0) 1500000000) = 2200000000 \<and>
   (\<exists>crl. NewCRLFromFile accepting_crypto second_clock ''10'' [] [] 1500000000 = Inr crl \<and>
      nanos (NextUpdate (TBSCertList crl)) = 2000000000) \<and>
   (\<exists>crl. NewCRLFromDB accepting_crypto second_clock memdb sample_db [] [] 1500000000 = Inr crl \<and>
      nanos (NextUpdate (TBSCertList crl)) = 2000000000) \<and>
   nanos (Add (second_clock 1) oneWeek) = 604801700000000 \<and>
   (\<exists>crl. NewCRLFromFile accepting_crypto second_clock ''10'' [] [] 0 = Inr crl \<and>
      nanos (NextUpdate (TBSCertList crl)) = 604801000000000) \<and>
   (\<exists>crl. NewCRLFromDB accepting_crypto second_clock memdb sample_db [] [] 0 = Inr crl \<and>
      nanos (NextUpdate (TBSCertList crl)) = 604801000000000)"
proof -
  have c: "ParseCertificatePEM accepting_crypto [] = Inr []"
    and k: "ParsePrivateKeyPEM accepting_crypto [] = Inr []"
    and s: "\<forall>tbs. \<exists>sig. Sign accepting_crypto [] [] tbs = Inr sig"
    by (simp_all add: accepting_crypto_def)
  have r: "Select_certificates memdb sample_db selectAllRevokedSQL =
     Inr (filter (\<lambda>cr. Status cr = ''revoked'') (certificates sample_db))"
    by simp
  have d: "sint (1500000000 :: 64 word) = 1500000000" "(1500000000 :: 64 word) \<noteq> 0"
    by simp_all
  have n: "nanos (Add (second_clock 0) 1500000000) = 2200000000"
    "nanos (Add (second_clock 1) oneWeek) = 604801700000000"
    by (simp_all add: Add_def second_clock_def sint_oneWeek)
  note t = nextUpdate_resolution [OF c k s r, of second_clock "''10''"]
  note tf = t [THEN conjunct2, THEN conjunct2, THEN conjunct2, THEN conjunct1]
  note tg = t [THEN conjunct2, THEN conjunct2, THEN conjunct2, THEN conjunct2]
  from tf [of 1500000000] tg [of 1500000000] d have
    "\<exists>crl. NewCRLFromFile accepting_crypto second_clock ''10'' [] [] 1500000000 = Inr crl \<and>
      nanos (NextUpdate (TBSCertList crl)) = 2000000000"
    "\<exists>crl. NewCRLFromDB accepting_crypto second_clock memdb sample_db [] [] 1500000000 = Inr crl \<and>
      nanos (NextUpdate (TBSCertList crl)) = 2000000000"
    by (auto simp: second_clock_def)
  moreover from tf [of 0] tg [of 0] have
    "\<exists>crl. NewCRLFromFile accepting_crypto second_clock ''10'' [] [] 0 = Inr crl \<and>
      nanos (NextUpdate (TBSCertList crl)) = 604801000000000"
    "\<exists>crl. NewCRLFromDB accepting_crypto second_clock memdb sample_db [] [] 0 = Inr crl \<and>
      nanos (NextUpdate (TBSCertList crl)) = 604801000000000"
    by (auto simp: second_clock_def)
  ultimately show ?thesis using c k r n by blast
qed

text \<open>
  Claim C4. Over any state of the database in memory, what the assembler hands to
  \<open>CreateGenericCRL\<close> is one fact for each stored record whose status is \<^verbatim>\<open>revoked\<close>,
  in the order of the rows, and none for any other record, whatever its expiry. The
  revocation time of a fact is the record's stored \<^verbatim>\<open>revoked_at\<close> as it is; no
  reading of the clock enters it. The CRL that comes back has one entry for each of
  these facts, with the revocation time as the encoding keeps it: the whole seconds of
  the stored instant, in UTC. The issuer certificate and the key are taken to parse and
  the signing primitive to succeed.
\<close>

theorem NewCRLFromDB_revoked_only:
  assumes cert: "ParseCertificatePEM env issuerFile = Inr c"
    and key: "ParsePrivateKeyPEM env keyFile = Inr k"
    and sign: "\<forall>tbs. \<exists>sig. Sign env k c tbs = Inr sig"
  shows "NewCRLFromDB env clk memdb db issuerFile keyFile d =
           CreateGenericCRL env clk (if d = 0 then 2 else 1)
             (map (\<lambda>cr. \<lparr>SerialNumber = fst (SetString (Serial cr)),
                         RevocationTime = RevokedAt cr\<rparr>)
                (filter (\<lambda>cr. Status cr = ''revoked'') (certificates db))) k c
             (if d = 0 then Add (clk 1) oneWeek else Add (clk 0) d) \<and>
         (\<exists>crl. NewCRLFromDB env clk memdb db issuerFile keyFile d = Inr crl \<and>
            RevokedCertificates (TBSCertList crl) =
              map (\<lambda>cr. \<lparr>SerialNumber = fst (SetString (Serial cr)),
                          RevocationTime = marshal_time (RevokedAt cr)\<rparr>)
                (filter (\<lambda>cr. Status cr = ''revoked'') (certificates db)))"
proof -
  have rows: "Select_certificates memdb db selectAllRevokedSQL =
                Inr (filter (\<lambda>cr. Status cr = ''revoked'') (certificates db))"
    by simp
  have handed: "NewCRLFromDB env clk memdb db issuerFile keyFile d =
           CreateGenericCRL env clk (if d = 0 then 2 else 1)
             (map (\<lambda>cr. \<lparr>SerialNumber = fst (SetString (Serial cr)),
                         RevocationTime = RevokedAt cr\<rparr>)
                (filter (\<lambda>cr. Status cr = ''revoked'') (certificates db))) k c
             (if d = 0 then Add (clk 1) oneWeek else Add (clk 0) d)"
    unfolding NewCRLFromDB_handed [OF cert key rows] revoke_records_eq by simp
  obtain crl where crl: "NewCRLFromDB env clk memdb db issuerFile keyFile d = Inr crl"
    and rc: "RevokedCertificates (TBSCertList crl) =
       map (\<lambda>rc. rc\<lparr>RevocationTime := marshal_time (RevocationTime rc)\<rparr>)
         (map (\<lambda>cr. \<lparr>SerialNumber = fst (SetString (Serial cr)),
                         RevocationTime = RevokedAt cr\<rparr>)
                (filter (\<lambda>cr. Status cr = ''revoked'') (certificates db)))"
    using CreateCRL_total [OF sign] unfolding handed CreateGenericCRL_def by blast
  have "RevokedCertificates (TBSCertList crl) =
             map (\<lambda>cr. \<lparr>SerialNumber = fst (SetString (Serial cr)),
                         RevocationTime = marshal_time (RevokedAt cr)\<rparr>)
               (filter (\<lambda>cr. Status cr = ''revoked'') (certificates db))"
    unfolding rc by (simp add: o_def)
  with crl handed show ?thesis by blast
qed

theorem NewCRLFromDB_revoked_only_witness:
  "ParseCertificatePEM accepting_crypto [] = Inr [] \<and>
   ParsePrivateKeyPEM accepting_crypto [] = Inr [] \<and>
   NewCRLFromDB accepting_crypto second_clock memdb sample_db [] [] 0 =
     CreateGenericCRL accepting_crypto second_clock 2
       [\<lparr>SerialNumber = 2, RevocationTime = \<lparr>nanos = 500, loc = LocUTC\<rparr>\<rparr>] [] []
       (Add (second_clock 1) oneWeek) \<and>
   (\<exists>crl. NewCRLFromDB accepting_crypto second_clock memdb sample_db [] [] 0 = Inr crl \<and>
      RevokedCertificates (TBSCertList crl) =
        [\<lparr>SerialNumber = 2, RevocationTime = \<lparr>nanos = 0, loc = LocUTC\<rparr>\<rparr>])"
proof -
  have c: "ParseCertificatePEM accepting_crypto [] = Inr []"
    and k: "ParsePrivateKeyPEM accepting_crypto [] = Inr []"
    and s: "\<forall>tbs. \<exists>sig. Sign accepting_crypto [] [] tbs = Inr sig"
    by (simp_all add: accepting_crypto_def)
  have e: "SetString ''2'' = (2, True)"
    by (simp add: SetString_def is_digit_def digits_value_def digit_val_def)
  have rows: "filter (\<lambda>cr. Status cr = ''revoked'') (certificates sample_db) =
      [\<lparr>Serial = ''2'', CALabel = [], Status = ''revoked'', Reason = 0,
        Expiry = \<lparr>nanos = 900, loc = LocUTC\<rparr>, RevokedAt = \<lparr>nanos = 500, loc = LocUTC\<rparr>,
        PEM = ''unexpired cert''\<rparr>]"
    by (simp add: sample_db_def)
  have m: "marshal_time \<lparr>nanos = 500, loc = LocUTC\<rparr> = \<lparr>nanos = 0, loc = LocUTC\<rparr>"
    by (simp add: marshal_time_def)
  note t = NewCRLFromDB_revoked_only [OF c k s, of second_clock sample_db 0, unfolded rows]
  from t [THEN conjunct1]
  have "NewCRLFromDB accepting_crypto second_clock memdb sample_db [] [] 0 =
     CreateGenericCRL accepting_crypto second_clock 2
       [\<lparr>SerialNumber = 2, RevocationTime = \<lparr>nanos = 500, loc = LocUTC\<rparr>\<rparr>] [] []
       (Add (second_clock 1) oneWeek)"
    by (simp add: e)
  moreover from t [THEN conjunct2] have
    "\<exists>crl. NewCRLFromDB accepting_crypto second_clock memdb sample_db [] [] 0 = Inr crl \<and>
      RevokedCertificates (TBSCertList crl) =
        [\<lparr>SerialNumber = 2, RevocationTime = \<lparr>nanos = 0, loc = LocUTC\<rparr>\<rparr>]"
    by (auto simp: e m)
  ultimately show ?thesis using c k by blast
qed

section \<open>Properties of the record store\<close>

lemma InsertCertificate_memdb:
  "InsertCertificate memdb db cr =
     (if Serial cr \<in> set (map Serial (certificates db))
      then (Some (Wrap CertStoreError Unknown (External ErrConstraint)), db)
      else (None, db\<lparr>certificates := certificates db @
              [cr\<lparr>Expiry := UTC (Expiry cr), RevokedAt := UTC (RevokedAt cr)\<rparr>]\<rparr>))"
  by (cases cr) (simp add: InsertCertificate_def)

lemma RevokeCertificate_memdb:
  "RevokeCertificate memdb db serial reasonCode =
     (let n = int (length (filter (\<lambda>r. Serial r = serial) (certificates db)))
      in if n = 0 then Some (Wrap CertStoreError RecordNotFound
               (Errorf ''failed to revoke the certificate: certificate not found'' []))
         else if n \<noteq> 1 then Some (Wrap CertStoreError Unknown
               (Errorf ''%d rows are affected, should be 1 row'' [n]))
         else None,
      db\<lparr>certificates :=
           map (\<lambda>r. if Serial r = serial
                     then r\<lparr>Status := ''revoked'', RevokedAt := CURRENT_TIMESTAMP db,
                            Reason := reasonCode\<rparr>
                     else r) (certificates db)\<rparr>)"
  by (simp add: RevokeCertificate_def revoke_row_def [abs_def] Let_def)

lemma InsertOCSP_memdb:
  "InsertOCSP memdb db rr =
     (if Serial' rr \<in> set (map Serial' (ocsp_responses db))
      then (Some (Wrap CertStoreError Unknown (External ErrConstraint)), db)
      else (None, db\<lparr>ocsp_responses := ocsp_responses db @
              [\<lparr>Serial' = Serial' rr, Body = Body rr, Expiry' = UTC (Expiry' rr)\<rparr>]\<rparr>))"
  by (simp add: InsertOCSP_def)

lemma UpdateOCSP_memdb:
  "UpdateOCSP memdb db serial body expiry =
     (let n = int (length (filter (\<lambda>r. Serial' r = serial) (ocsp_responses db)))
      in if n = 0 then Some (Wrap CertStoreError RecordNotFound
               (Errorf ''failed to update the OCSP record'' []))
         else if n \<noteq> 1 then Some (Wrap CertStoreError Unknown
               (Errorf ''%d rows are affected, should be 1 row'' [n]))
         else None,
      db\<lparr>ocsp_responses :=
           map (\<lambda>r. if Serial' r = serial then r\<lparr>Expiry' := UTC expiry, Body := body\<rparr> else r)
             (ocsp_responses db)\<rparr>)"
  by (simp add: UpdateOCSP_def update_ocsp_row_def [abs_def] Let_def)


lemma InsertCertificate_cases:
  assumes "NamedExec X db insertSQL (CertArg \<lparr>
             Serial = Serial cr, CALabel = CALabel cr, Status = Status cr, Reason = Reason cr,
             Expiry = UTC (Expiry cr), RevokedAt = UTC (RevokedAt cr), PEM = PEM cr\<rparr>) = (r, db')"
  shows "InsertCertificate X db cr =
     (case r of
        Inl err \<Rightarrow> Some (Wrap CertStoreError Unknown (External err))
      | Inr res \<Rightarrow>
          if fst (RowsAffected res) = 0 then
            Some (Wrap CertStoreError InsertionFailed
                   (Errorf ''failed to insert the certificate record'' []))
          else if fst (RowsAffected res) \<noteq> 1 then
            Some (Wrap CertStoreError Unknown
                   (Errorf ''%d rows are affected, should be 1 row'' [fst (RowsAffected res)]))
          else map_option External (snd (RowsAffected res)),
      db')"
  using assms by (simp add: InsertCertificate_def split: sum.splits prod.splits)

text \<open>
  Claim C5. \<open>InsertCertificate\<close> runs one statement, the insert, with every field of the
  record and both times in UTC, and leaves the database as that statement left it. It
  fails with the reason \<open>InsertionFailed\<close> exactly when the statement ran and reported
  zero rows affected; with more than one row reported it fails with the store error of
  reason \<open>Unknown\<close> that wraps the count; with one row reported it returns what came with
  the count, so it succeeds when the driver reports exactly one row. On the database in
  memory the row appended is the record with its times in UTC.
\<close>

theorem InsertCertificate_outcome:
  assumes "NamedExec X db insertSQL (CertArg \<lparr>
             Serial = Serial cr, CALabel = CALabel cr, Status = Status cr, Reason = Reason cr,
             Expiry = UTC (Expiry cr), RevokedAt = UTC (RevokedAt cr), PEM = PEM cr\<rparr>) = (r, db')"
  shows "snd (InsertCertificate X db cr) = db' \<and>
     ((\<exists>e. fst (InsertCertificate X db cr) = Some (Wrap CertStoreError InsertionFailed e))
        \<longleftrightarrow> (\<exists>res. r = Inr res \<and> fst (RowsAffected res) = 0)) \<and>
     (\<forall>res. r = Inr res \<and> 1 < fst (RowsAffected res) \<longrightarrow>
        fst (InsertCertificate X db cr) =
          Some (Wrap CertStoreError Unknown
                 (Errorf ''%d rows are affected, should be 1 row'' [fst (RowsAffected res)]))) \<and>
     (\<forall>res. r = Inr res \<and> fst (RowsAffected res) = 1 \<longrightarrow>
        fst (InsertCertificate X db cr) = map_option External (snd (RowsAffected res))) \<and>
     (\<forall>res. r = Inr res \<and> RowsAffected res = (1, None) \<longrightarrow>
        fst (InsertCertificate X db cr) = None) \<and>
     (Serial cr \<notin> set (map Serial (certificates mdb)) \<longrightarrow>
        InsertCertificate memdb mdb cr =
          (None, mdb\<lparr>certificates := certificates mdb @
             [\<lparr>Serial = Serial cr, CALabel = CALabel cr, Status = Status cr, Reason = Reason cr,
               Expiry = UTC (Expiry cr), RevokedAt = UTC (RevokedAt cr), PEM = PEM cr\<rparr>]\<rparr>))"
proof -
  have mem: "Serial cr \<notin> set (map Serial (certificates mdb)) \<longrightarrow>
        InsertCertificate memdb mdb cr =
          (None, mdb\<lparr>certificates := certificates mdb @
             [\<lparr>Serial = Serial cr, CALabel = CALabel cr, Status = Status cr, Reason = Reason cr,
               Expiry = UTC (Expiry cr), RevokedAt = UTC (RevokedAt cr), PEM = PEM cr\<rparr>]\<rparr>)"
    by (simp add: InsertCertificate_def)
  show ?thesis
    unfolding InsertCertificate_cases [OF assms] using mem
    by (cases r) (auto split: if_splits)
qed

theorem InsertCertificate_outcome_witness:
  "fst (InsertCertificate (reporting (0, None)) () inconsistent_cert) =
     Some (Wrap CertStoreError InsertionFailed
            (Errorf ''failed to insert the certificate record'' [])) \<and>
   fst (InsertCertificate (reporting (2, None)) () inconsistent_cert) =
     Some (Wrap CertStoreError Unknown (Errorf ''%d rows are affected, should be 1 row'' [2])) \<and>
   fst (InsertCertificate (reporting (1, None)) () inconsistent_cert) = None \<and>
   Serial inconsistent_cert \<notin> set (map Serial (certificates sample_db)) \<and>
   fst (InsertCertificate memdb sample_db inconsistent_cert) = None \<and>
   map Serial (certificates (snd (InsertCertificate memdb sample_db inconsistent_cert))) =
     [''1'', ''2'', ''3'']"
proof -
  have r: "NamedExec (reporting n) () insertSQL a = (Inr \<lparr>RowsAffected = n\<rparr>, ())" for n a
    by (simp add: reporting_def)
  have f: "Serial inconsistent_cert \<notin> set (map Serial (certificates sample_db))"
    by (simp add: inconsistent_cert_def sample_db_def)
  from InsertCertificate_outcome [OF r, of "(0, None)" inconsistent_cert sample_db]
    InsertCertificate_outcome [OF r, of "(2, None)" inconsistent_cert sample_db]
    InsertCertificate_outcome [OF r, of "(1, None)" inconsistent_cert sample_db] f
  show ?thesis
    by (simp add: inconsistent_cert_def sample_db_def InsertCertificate_def reporting_def)
qed


text \<open>
  Claim C6. On the database in memory \<open>RevokeCertificate\<close> sets, in every row with the
  given serial and in no other, the status to \<^verbatim>\<open>revoked\<close>, the reason to the reason
  code and the revocation time to the server's current time, and leaves the OCSP
  relation alone. It fails with the reason \<open>RecordNotFound\<close> exactly when no row has
  the serial, fails with the store error of reason \<open>Unknown\<close> when more than one row
  has it, and succeeds when exactly one has.
\<close>

theorem RevokeCertificate_effect:
  "certificates (snd (RevokeCertificate memdb db serial reasonCode)) =
     map (\<lambda>r. if Serial r = serial
               then r\<lparr>Status := ''revoked'', RevokedAt := CURRENT_TIMESTAMP db,
                      Reason := reasonCode\<rparr>
               else r) (certificates db) \<and>
   ocsp_responses (snd (RevokeCertificate memdb db serial reasonCode)) = ocsp_responses db \<and>
   ((\<exists>e. fst (RevokeCertificate memdb db serial reasonCode) =
           Some (Wrap CertStoreError RecordNotFound e))
      \<longleftrightarrow> length (filter (\<lambda>r. Serial r = serial) (certificates db)) = 0) \<and>
   (1 < length (filter (\<lambda>r. Serial r = serial) (certificates db)) \<longrightarrow>
      fst (RevokeCertificate memdb db serial reasonCode) =
        Some (Wrap CertStoreError Unknown
               (Errorf ''%d rows are affected, should be 1 row''
                  [int (length (filter (\<lambda>r. Serial r = serial) (certificates db)))]))) \<and>
   (length (filter (\<lambda>r. Serial r = serial) (certificates db)) = 1 \<longrightarrow>
      fst (RevokeCertificate memdb db serial reasonCode) = None)"
  unfolding RevokeCertificate_memdb by (auto simp: Let_def)

theorem RevokeCertificate_effect_witness:
  "length (filter (\<lambda>r. Serial r = ''1'') (certificates sample_db)) = 1 \<and>
   fst (RevokeCertificate memdb sample_db ''1'' 2) = None \<and>
   map (\<lambda>r. (Serial r, Status r, Reason r, RevokedAt r))
     (certificates (snd (RevokeCertificate memdb sample_db ''1'' 2))) =
     [(''1'', ''revoked'', 2, \<lparr>nanos = 600, loc = LocUTC\<rparr>),
      (''2'', ''revoked'', 0, \<lparr>nanos = 500, loc = LocUTC\<rparr>)] \<and>
   length (filter (\<lambda>r. Serial r = ''7'') (certificates sample_db)) = 0 \<and>
   fst (RevokeCertificate memdb sample_db ''7'' 2) =
     Some (Wrap CertStoreError RecordNotFound
            (Errorf ''failed to revoke the certificate: certificate not found'' [])) \<and>
   1 < length (filter (\<lambda>r. Serial r = ''1'')
         (certificates (sample_db\<lparr>certificates :=
            certificates sample_db @ certificates sample_db\<rparr>))) \<and>
   fst (RevokeCertificate memdb
         (sample_db\<lparr>certificates := certificates sample_db @ certificates sample_db\<rparr>)
         ''1'' 2) =
     Some (Wrap CertStoreError Unknown (Errorf ''%d rows are affected, should be 1 row'' [2]))"
  using RevokeCertificate_effect [of sample_db "''1''" 2]
    RevokeCertificate_effect [of sample_db "''7''" 2]
    RevokeCertificate_effect
      [of "sample_db\<lparr>certificates := certificates sample_db @ certificates sample_db\<rparr>"
          "''1''" 2]
  by (simp add: sample_db_def RevokeCertificate_memdb)

lemma update_ocsp_literal:
  "Serial' r = serial \<Longrightarrow>
     r\<lparr>Expiry' := e, Body := b\<rparr> = \<lparr>Serial' = serial, Body = b, Expiry' = e\<rparr>"
  by (cases r) simp

lemma UpdateOCSP_rows:
  "ocsp_responses (snd (UpdateOCSP memdb db serial body expiry)) =
     map (\<lambda>r. if Serial' r = serial
               then \<lparr>Serial' = serial, Body = body, Expiry' = UTC expiry\<rparr> else r)
       (ocsp_responses db)"
  unfolding UpdateOCSP_memdb by (simp add: update_ocsp_literal cong: if_cong)

lemma update_unmatched:
  "filter P xs = [] \<Longrightarrow> map (\<lambda>r. if P r then f r else r) xs = xs"
  by (induction xs) (auto split: if_splits)

text \<open>
  Claim C7. On the database in memory \<open>UpdateOCSP\<close> for a serial that no OCSP row has
  fails with the reason \<open>RecordNotFound\<close> and leaves the database as it was. In every
  case the serials of the OCSP rows stay as they were, so no row is ever inserted; the
  rows with the given serial get the new body and the expiry in UTC, the others stay,
  and with exactly one such row the call succeeds.
\<close>

theorem UpdateOCSP_effect:
  "(length (filter (\<lambda>r. Serial' r = serial) (ocsp_responses db)) = 0 \<longrightarrow>
      UpdateOCSP memdb db serial body expiry =
        (Some (Wrap CertStoreError RecordNotFound
                (Errorf ''failed to update the OCSP record'' [])), db)) \<and>
   map Serial' (ocsp_responses (snd (UpdateOCSP memdb db serial body expiry))) =
     map Serial' (ocsp_responses db) \<and>
   ocsp_responses (snd (UpdateOCSP memdb db serial body expiry)) =
     map (\<lambda>r. if Serial' r = serial
               then \<lparr>Serial' = serial, Body = body, Expiry' = UTC expiry\<rparr> else r)
       (ocsp_responses db) \<and>
   certificates (snd (UpdateOCSP memdb db serial body expiry)) = certificates db \<and>
   (length (filter (\<lambda>r. Serial' r = serial) (ocsp_responses db)) = 1 \<longrightarrow>
      fst (UpdateOCSP memdb db serial body expiry) = None)"
proof -
  have none: "length (filter (\<lambda>r. Serial' r = serial) (ocsp_responses db)) = 0 \<longrightarrow>
      UpdateOCSP memdb db serial body expiry =
        (Some (Wrap CertStoreError RecordNotFound
                (Errorf ''failed to update the OCSP record'' [])), db)"
    unfolding UpdateOCSP_memdb by (auto simp: Let_def update_unmatched)
  have serials: "map Serial' (ocsp_responses (snd (UpdateOCSP memdb db serial body expiry))) =
     map Serial' (ocsp_responses db)"
    unfolding UpdateOCSP_rows by (induction "ocsp_responses db") (simp_all add: o_def)
  have rest: "certificates (snd (UpdateOCSP memdb db serial body expiry)) = certificates db"
    "length (filter (\<lambda>r. Serial' r = serial) (ocsp_responses db)) = 1 \<longrightarrow>
      fst (UpdateOCSP memdb db serial body expiry) = None"
    unfolding UpdateOCSP_memdb by (simp_all add: Let_def)
  from none serials rest UpdateOCSP_rows show ?thesis by blast
qed


theorem UpdateOCSP_effect_witness:
  "length (filter (\<lambda>r. Serial' r = ''1'') (ocsp_responses sample_db)) = 0 \<and>
   UpdateOCSP memdb sample_db ''1'' ''fake body'' \<lparr>nanos = 800, loc = Local\<rparr> =
     (Some (Wrap CertStoreError RecordNotFound
             (Errorf ''failed to update the OCSP record'' [])), sample_db) \<and>
   length (filter (\<lambda>r. Serial' r = ''2'') (ocsp_responses sample_db)) = 1 \<and>
   fst (UpdateOCSP memdb sample_db ''2'' ''fake body revoked'' \<lparr>nanos = 800, loc = Local\<rparr>) =
     None \<and>
   ocsp_responses
     (snd (UpdateOCSP memdb sample_db ''2'' ''fake body revoked'' \<lparr>nanos = 800, loc = Local\<rparr>)) =
     [\<lparr>Serial' = ''2'', Body = ''fake body revoked'', Expiry' = \<lparr>nanos = 800, loc = LocUTC\<rparr>\<rparr>]"
proof -
  have n: "length (filter (\<lambda>r. Serial' r = ''1'') (ocsp_responses sample_db)) = 0"
    "length (filter (\<lambda>r. Serial' r = ''2'') (ocsp_responses sample_db)) = 1"
    by (simp_all add: sample_db_def)
  from UpdateOCSP_effect [of "''1''" sample_db "''fake body''" "\<lparr>nanos = 800, loc = Local\<rparr>"]
    UpdateOCSP_effect [of "''2''" sample_db "''fake body revoked''" "\<lparr>nanos = 800, loc = Local\<rparr>"]
    n
  show ?thesis by (simp add: sample_db_def UTC_def)
qed

lemma UpsertOCSP_cases:
  assumes "NamedExec X db updateOCSPSQL
             (OCSPArg \<lparr>Serial' = serial, Body = body, Expiry' = UTC expiry\<rparr>) = (r, db')"
  shows "UpsertOCSP X db serial body expiry =
     (case r of
        Inl err \<Rightarrow> (Some (Wrap CertStoreError Unknown (External err)), db')
      | Inr res \<Rightarrow>
          if fst (RowsAffected res) = 0 then
            InsertOCSP X db' \<lparr>Serial' = serial, Body = body, Expiry' = expiry\<rparr>
          else if fst (RowsAffected res) \<noteq> 1 then
            (Some (Wrap CertStoreError Unknown
                   (Errorf ''%d rows are affected, should be 1 row'' [fst (RowsAffected res)])),
             db')
          else (map_option External (snd (RowsAffected res)), db'))"
  using assms by (simp add: UpsertOCSP_def split: sum.splits prod.splits)

lemma unmatched_serial:
  "filter (\<lambda>r. Serial' r = serial) xs = [] \<Longrightarrow> serial \<notin> set (map Serial' xs)"
  by (induction xs) (auto split: if_splits)

lemma UpsertOCSP_memdb:
  "UpsertOCSP memdb db serial body expiry =
     (let n = int (length (filter (\<lambda>r. Serial' r = serial) (ocsp_responses db)))
      in if n = 0 then
           (None, db\<lparr>ocsp_responses := ocsp_responses db @
                   [\<lparr>Serial' = serial, Body = body, Expiry' = UTC expiry\<rparr>]\<rparr>)
         else
           (if n \<noteq> 1 then Some (Wrap CertStoreError Unknown
                 (Errorf ''%d rows are affected, should be 1 row'' [n]))
            else None,
            db\<lparr>ocsp_responses :=
                 map (\<lambda>r. if Serial' r = serial
                           then \<lparr>Serial' = serial, Body = body, Expiry' = UTC expiry\<rparr> else r)
                   (ocsp_responses db)\<rparr>))"
proof (cases "filter (\<lambda>r. Serial' r = serial) (ocsp_responses db) = []")
  case True
  then have "map (update_ocsp_row \<lparr>Serial' = serial, Body = body, Expiry' = UTC expiry\<rparr>)
               (ocsp_responses db) = ocsp_responses db"
    using update_unmatched [of "\<lambda>r. Serial' r = serial" "ocsp_responses db"]
    by (simp add: update_ocsp_row_def [abs_def])
  moreover from True have "serial \<notin> set (map Serial' (ocsp_responses db))"
    by (rule unmatched_serial)
  ultimately show ?thesis
    using True by (simp add: UpsertOCSP_def InsertOCSP_memdb)
next
  case False
  then show ?thesis
    by (simp add: UpsertOCSP_def update_ocsp_row_def [abs_def] update_ocsp_literal Let_def
          cong: if_cong)
qed

lemma find_appended:
  "filter P xs = [] \<Longrightarrow> P y \<Longrightarrow> find P (xs @ [y]) = Some y"
  by (induction xs) (auto split: if_splits)

lemma find_replaced:
  "filter P xs \<noteq> [] \<Longrightarrow> P y \<Longrightarrow> find P (map (\<lambda>r. if P r then y else r) xs) = Some y"
  by (induction xs) (auto split: if_splits)

lemma GetOCSP_after_UpsertOCSP:
  assumes "fst (UpsertOCSP memdb db serial body expiry) = None"
  shows "GetOCSP memdb (snd (UpsertOCSP memdb db serial body expiry)) serial =
           Inr \<lparr>Serial' = serial, Body = body, Expiry' = UTC expiry\<rparr>"
proof (cases "filter (\<lambda>r. Serial' r = serial) (ocsp_responses db) = []")
  case True
  then show ?thesis
    unfolding UpsertOCSP_memdb
    by (simp add: GetOCSP_def find_appended [where P = "\<lambda>r. Serial' r = serial"])
next
  case False
  then show ?thesis
    unfolding UpsertOCSP_memdb
    by (simp add: GetOCSP_def find_replaced [where P = "\<lambda>r. Serial' r = serial"] Let_def)
qed

text \<open>
  Claim C8. \<open>UpsertOCSP\<close> first runs the update. When the update reports zero rows
  affected it goes on as \<open>InsertOCSP\<close> does with the same serial, body and expiry; when
  it reports another count, or fails, the database stays as the update left it. On the
  database in memory: with no row for the serial the record is appended and the call
  succeeds; with rows for the serial, these are overwritten and none is added; and after
  every successful call \<open>GetOCSP\<close> for the serial returns the body and the expiry
  given (the expiry in UTC).
\<close>

theorem UpsertOCSP_effect:
  assumes "NamedExec X db updateOCSPSQL
             (OCSPArg \<lparr>Serial' = serial, Body = body, Expiry' = UTC expiry\<rparr>) = (r, db')"
  shows "(\<forall>res. r = Inr res \<and> fst (RowsAffected res) = 0 \<longrightarrow>
            UpsertOCSP X db serial body expiry =
              InsertOCSP X db' \<lparr>Serial' = serial, Body = body, Expiry' = expiry\<rparr>) \<and>
         (\<forall>res. r = Inr res \<and> fst (RowsAffected res) \<noteq> 0 \<longrightarrow>
            snd (UpsertOCSP X db serial body expiry) = db') \<and>
         (\<forall>e. r = Inl e \<longrightarrow>
            UpsertOCSP X db serial body expiry =
              (Some (Wrap CertStoreError Unknown (External e)), db')) \<and>
         (length (filter (\<lambda>r. Serial' r = serial) (ocsp_responses mdb)) = 0 \<longrightarrow>
            UpsertOCSP memdb mdb serial body expiry =
              (None, mdb\<lparr>ocsp_responses := ocsp_responses mdb @
                       [\<lparr>Serial' = serial, Body = body, Expiry' = UTC expiry\<rparr>]\<rparr>)) \<and>
         (length (filter (\<lambda>r. Serial' r = serial) (ocsp_responses mdb)) \<noteq> 0 \<longrightarrow>
            ocsp_responses (snd (UpsertOCSP memdb mdb serial body expiry)) =
              map (\<lambda>r. if Serial' r = serial
                        then \<lparr>Serial' = serial, Body = body, Expiry' = UTC expiry\<rparr> else r)
                (ocsp_responses mdb)) \<and>
         (fst (UpsertOCSP memdb mdb serial body expiry) = None \<longrightarrow>
            GetOCSP memdb (snd (UpsertOCSP memdb mdb serial body expiry)) serial =
              Inr \<lparr>Serial' = serial, Body = body, Expiry' = UTC expiry\<rparr>)"
proof -
  have generic:
    "(\<forall>res. r = Inr res \<and> fst (RowsAffected res) = 0 \<longrightarrow>
            UpsertOCSP X db serial body expiry =
              InsertOCSP X db' \<lparr>Serial' = serial, Body = body, Expiry' = expiry\<rparr>) \<and>
         (\<forall>res. r = Inr res \<and> fst (RowsAffected res) \<noteq> 0 \<longrightarrow>
            snd (UpsertOCSP X db serial body expiry) = db') \<and>
         (\<forall>e. r = Inl e \<longrightarrow>
            UpsertOCSP X db serial body expiry =
              (Some (Wrap CertStoreError Unknown (External e)), db'))"
    unfolding UpsertOCSP_cases [OF assms] by (cases r) auto
  have mem:
    "length (filter (\<lambda>r. Serial' r = serial) (ocsp_responses mdb)) = 0 \<longrightarrow>
            UpsertOCSP memdb mdb serial body expiry =
              (None, mdb\<lparr>ocsp_responses := ocsp_responses mdb @
                       [\<lparr>Serial' = serial, Body = body, Expiry' = UTC expiry\<rparr>]\<rparr>)"
    "length (filter (\<lambda>r. Serial' r = serial) (ocsp_responses mdb)) \<noteq> 0 \<longrightarrow>
            ocsp_responses (snd (UpsertOCSP memdb mdb serial body expiry)) =
              map (\<lambda>r. if Serial' r = serial
                        then \<lparr>Serial' = serial, Body = body, Expiry' = UTC expiry\<rparr> else r)
                (ocsp_responses mdb)"
    unfolding UpsertOCSP_memdb by (simp_all add: Let_def)
  from generic mem GetOCSP_after_UpsertOCSP [of mdb serial body expiry]
  show ?thesis by blast
qed


theorem UpsertOCSP_effect_witness:
  "UpsertOCSP (reporting (0, None)) () ''9'' ''fake body'' \<lparr>nanos = 800, loc = Local\<rparr> =
     InsertOCSP (reporting (0, None)) ()
       \<lparr>Serial' = ''9'', Body = ''fake body'', Expiry' = \<lparr>nanos = 800, loc = Local\<rparr>\<rparr> \<and>
   length (filter (\<lambda>r. Serial' r = ''9'') (ocsp_responses sample_db)) = 0 \<and>
   fst (UpsertOCSP memdb sample_db ''9'' ''fake body'' \<lparr>nanos = 800, loc = Local\<rparr>) = None \<and>
   GetOCSP memdb (snd (UpsertOCSP memdb sample_db ''9'' ''fake body'' \<lparr>nanos = 800, loc = Local\<rparr>))
       ''9'' =
     Inr \<lparr>Serial' = ''9'', Body = ''fake body'', Expiry' = \<lparr>nanos = 800, loc = LocUTC\<rparr>\<rparr> \<and>
   length (filter (\<lambda>r. Serial' r = ''2'') (ocsp_responses sample_db)) \<noteq> 0 \<and>
   fst (UpsertOCSP memdb sample_db ''2'' ''fake body revoked'' \<lparr>nanos = 800, loc = Local\<rparr>) =
     None \<and>
   GetOCSP memdb
       (snd (UpsertOCSP memdb sample_db ''2'' ''fake body revoked'' \<lparr>nanos = 800, loc = Local\<rparr>))
       ''2'' =
     Inr \<lparr>Serial' = ''2'', Body = ''fake body revoked'',
          Expiry' = \<lparr>nanos = 800, loc = LocUTC\<rparr>\<rparr>"
proof -
  have r: "NamedExec (reporting n) () updateOCSPSQL a = (Inr \<lparr>RowsAffected = n\<rparr>, ())" for n a
    by (simp add: reporting_def)
  have n: "length (filter (\<lambda>r. Serial' r = ''9'') (ocsp_responses sample_db)) = 0"
    "length (filter (\<lambda>r. Serial' r = ''2'') (ocsp_responses sample_db)) \<noteq> 0"
    by (simp_all add: sample_db_def)
  have ok: "fst (UpsertOCSP memdb sample_db ''9'' ''fake body'' \<lparr>nanos = 800, loc = Local\<rparr>) = None"
    "fst (UpsertOCSP memdb sample_db ''2'' ''fake body revoked'' \<lparr>nanos = 800, loc = Local\<rparr>) = None"
    by (simp_all add: UpsertOCSP_memdb sample_db_def)
  note t9 = UpsertOCSP_effect [OF r, of "(0, None)" "''9''" "''fake body''"
        "\<lparr>nanos = 800, loc = Local\<rparr>" sample_db]
  note t2 = UpsertOCSP_effect [OF r, of "(0, None)" "''2''" "''fake body revoked''"
        "\<lparr>nanos = 800, loc = Local\<rparr>" sample_db]
  from t9 have i: "UpsertOCSP (reporting (0, None)) () ''9'' ''fake body''
       \<lparr>nanos = 800, loc = Local\<rparr> =
     InsertOCSP (reporting (0, None)) ()
       \<lparr>Serial' = ''9'', Body = ''fake body'', Expiry' = \<lparr>nanos = 800, loc = Local\<rparr>\<rparr>"
    by simp
  from t9 ok(1) have g9: "GetOCSP memdb
       (snd (UpsertOCSP memdb sample_db ''9'' ''fake body'' \<lparr>nanos = 800, loc = Local\<rparr>)) ''9'' =
     Inr \<lparr>Serial' = ''9'', Body = ''fake body'', Expiry' = UTC \<lparr>nanos = 800, loc = Local\<rparr>\<rparr>"
    by blast
  from t2 ok(2) have g2: "GetOCSP memdb
       (snd (UpsertOCSP memdb sample_db ''2'' ''fake body revoked''
          \<lparr>nanos = 800, loc = Local\<rparr>)) ''2'' =
     Inr \<lparr>Serial' = ''2'', Body = ''fake body revoked'',
          Expiry' = UTC \<lparr>nanos = 800, loc = Local\<rparr>\<rparr>"
    by blast
  have u: "UTC \<lparr>nanos = 800, loc = Local\<rparr> = \<lparr>nanos = 800, loc = LocUTC\<rparr>"
    by (simp add: UTC_def)
  from i g9 g2 n ok show ?thesis unfolding u by blast
qed

lemma fresh_unmatched:
  "serial \<notin> set (map Serial xs) \<Longrightarrow> filter (\<lambda>r. Serial r = serial) xs = []"
  by (induction xs) auto

lemma find_fresh:
  "serial \<notin> set (map Serial xs) \<Longrightarrow> Serial y = serial \<Longrightarrow>
     find (\<lambda>r. Serial r = serial) (xs @ [y]) = Some y"
  by (induction xs) auto

text \<open>
  Claim C10. A record with status \<^verbatim>\<open>good\<close> and a revocation time that is not zero,
  under a serial not yet stored, is inserted without error into the database in memory
  and stored with that revocation time, in UTC; \<open>GetCertificate\<close> returns it so. No
  operation of the store turns it away or mends it: a further insertion and the
  revocation of another serial keep the row as it is, the revocation of its own serial
  succeeds as for any row, and the OCSP operations leave the certificates alone.
\<close>

theorem InsertCertificate_inconsistent:
  assumes fresh: "Serial cr \<notin> set (map Serial (certificates db))"
    and good: "Status cr = ''good''"
    and revoked: "\<not> IsZero (RevokedAt cr)"
  shows "InsertCertificate memdb db cr =
           (None, db\<lparr>certificates := certificates db @
              [cr\<lparr>Expiry := UTC (Expiry cr), RevokedAt := UTC (RevokedAt cr)\<rparr>]\<rparr>) \<and>
         (\<exists>got. GetCertificate memdb (snd (InsertCertificate memdb db cr)) (Serial cr) = Inr got \<and>
            Status got = ''good'' \<and> RevokedAt got = UTC (RevokedAt cr) \<and>
            nanos (RevokedAt got) = nanos (RevokedAt cr) \<and> \<not> IsZero (RevokedAt got)) \<and>
         cr\<lparr>Expiry := UTC (Expiry cr), RevokedAt := UTC (RevokedAt cr)\<rparr>
           \<in> set (certificates (snd (InsertCertificate memdb
                  (snd (InsertCertificate memdb db cr)) cr'))) \<and>
         (serial \<noteq> Serial cr \<longrightarrow>
            cr\<lparr>Expiry := UTC (Expiry cr), RevokedAt := UTC (RevokedAt cr)\<rparr>
              \<in> set (certificates (snd (RevokeCertificate memdb
                     (snd (InsertCertificate memdb db cr)) serial reasonCode)))) \<and>
         fst (RevokeCertificate memdb (snd (InsertCertificate memdb db cr)) (Serial cr) reasonCode)
           = None \<and>
         certificates (snd (InsertOCSP memdb (snd (InsertCertificate memdb db cr)) rr)) =
           certificates (snd (InsertCertificate memdb db cr)) \<and>
         certificates (snd (UpdateOCSP memdb (snd (InsertCertificate memdb db cr)) s b e)) =
           certificates (snd (InsertCertificate memdb db cr)) \<and>
         certificates (snd (UpsertOCSP memdb (snd (InsertCertificate memdb db cr)) s b e)) =
           certificates (snd (InsertCertificate memdb db cr))"
proof -
  let ?stored = "cr\<lparr>Expiry := UTC (Expiry cr), RevokedAt := UTC (RevokedAt cr)\<rparr>"
  let ?db1 = "db\<lparr>certificates := certificates db @ [?stored]\<rparr>"
  have ins: "InsertCertificate memdb db cr = (None, ?db1)"
    using fresh by (simp add: InsertCertificate_memdb)
  have get: "GetCertificate memdb ?db1 (Serial cr) = Inr ?stored"
    using fresh find_fresh [of "Serial cr" "certificates db" ?stored]
    by (simp add: GetCertificate_def)
  have props: "Status ?stored = ''good''" "RevokedAt ?stored = UTC (RevokedAt cr)"
    "nanos (RevokedAt ?stored) = nanos (RevokedAt cr)" "\<not> IsZero (RevokedAt ?stored)"
    using good revoked by (simp_all add: UTC_def IsZero_def)
  have again: "?stored \<in> set (certificates (snd (InsertCertificate memdb ?db1 cr')))"
    by (simp add: InsertCertificate_memdb)
  have other: "serial \<noteq> Serial cr \<longrightarrow>
      ?stored \<in> set (certificates (snd (RevokeCertificate memdb ?db1 serial reasonCode)))"
    by (simp add: RevokeCertificate_memdb Let_def)
  have "filter (\<lambda>r. Serial r = Serial cr) (certificates db) = []"
    using fresh by (rule fresh_unmatched)
  then have same: "fst (RevokeCertificate memdb ?db1 (Serial cr) reasonCode) = None"
    by (simp add: RevokeCertificate_memdb Let_def)
  have ocsp: "certificates (snd (InsertOCSP memdb ?db1 rr)) = certificates ?db1"
    "certificates (snd (UpdateOCSP memdb ?db1 s b e)) = certificates ?db1"
    "certificates (snd (UpsertOCSP memdb ?db1 s b e)) = certificates ?db1"
    by (simp_all add: InsertOCSP_memdb UpdateOCSP_memdb UpsertOCSP_memdb Let_def)
  show ?thesis
    unfolding ins snd_conv using get props again other same ocsp by blast
qed


theorem InsertCertificate_inconsistent_witness:
  "Serial inconsistent_cert \<notin> set (map Serial (certificates sample_db)) \<and>
   Status inconsistent_cert = ''good'' \<and>
   \<not> IsZero (RevokedAt inconsistent_cert) \<and>
   fst (InsertCertificate memdb sample_db inconsistent_cert) = None \<and>
   (\<exists>got. GetCertificate memdb (snd (InsertCertificate memdb sample_db inconsistent_cert)) ''3'' =
            Inr got \<and>
      Status got = ''good'' \<and> RevokedAt got = \<lparr>nanos = 100, loc = LocUTC\<rparr>)"
proof -
  have h: "Serial inconsistent_cert \<notin> set (map Serial (certificates sample_db))"
    "Status inconsistent_cert = ''good''" "\<not> IsZero (RevokedAt inconsistent_cert)"
    by (simp_all add: inconsistent_cert_def sample_db_def IsZero_def)
  have v: "Serial inconsistent_cert = ''3''"
    "UTC (RevokedAt inconsistent_cert) = \<lparr>nanos = 100, loc = LocUTC\<rparr>"
    by (simp_all add: inconsistent_cert_def UTC_def)
  note t = InsertCertificate_inconsistent [OF h]
  from t [THEN conjunct1]
  have ins: "fst (InsertCertificate memdb sample_db inconsistent_cert) = None"
    by simp
  from t [THEN conjunct2, THEN conjunct1]
  have "\<exists>got. GetCertificate memdb (snd (InsertCertificate memdb sample_db inconsistent_cert))
            (Serial inconsistent_cert) = Inr got \<and>
      Status got = ''good'' \<and> RevokedAt got = UTC (RevokedAt inconsistent_cert)"
    by blast
  then have "\<exists>got. GetCertificate memdb (snd (InsertCertificate memdb sample_db inconsistent_cert))
            ''3'' = Inr got \<and>
      Status got = ''good'' \<and> RevokedAt got = \<lparr>nanos = 100, loc = LocUTC\<rparr>"
    unfolding v .
  with h ins show ?thesis by blast
qed

section \<open>Properties of the command\<close>

lemma CreateCRL_error:
  "CreateCRL env c k rcs now expiry = Inl e \<Longrightarrow> \<exists>x. e = External x"
  by (auto simp: CreateCRL_def Let_def split: sum.splits)

lemma NewCRLFromFile_error:
  "NewCRLFromFile env clk sl issuerFile keyFile d = Inl e \<Longrightarrow> \<exists>x. e = External x"
  by (auto simp: NewCRLFromFile_def CreateGenericCRL_def Let_def
        split: sum.splits prod.splits if_splits dest: CreateCRL_error)

lemma NewCRLFromDB_error:
  "NewCRLFromDB env clk X db issuerFile keyFile d = Inl e \<Longrightarrow>
     (\<exists>x. e = External x) \<or> (\<exists>x. e = Wrap CertStoreError Unknown (External x))"
  by (auto simp: NewCRLFromDB_def GetRevokedCertificates_def CreateGenericCRL_def Let_def
        split: sum.splits prod.splits if_splits dest: CreateCRL_error)

lemma gencrlMain_proceeds:
  assumes "\<not> (DBConfigFile c \<noteq> [] \<and> args \<noteq> [])"
    and "\<not> (DBConfigFile c = [] \<and> args = [])"
    and "\<not> (DBConfigFile c = [] \<and> 1 < length args)"
    and "CAFile c \<noteq> []" and "CAKeyFile c \<noteq> []"
  shows "(\<forall>m. fst (gencrlMain io env clk X args c) \<noteq> Some (New m)) \<and>
         (\<exists>acts. snd (gencrlMain io env clk X args c) = Read (CAFile c) # acts)"
  using assms
  by (auto simp: gencrlMain_def Let_def split: sum.splits prod.splits
        dest!: NewCRLFromFile_error NewCRLFromDB_error)

text \<open>
  Claim C9. \<open>gencrlMain\<close> returns one of its three errors about the source of the
  revocations exactly when a database configuration comes with positional arguments, or
  neither is given, or more than one positional argument comes without a database
  configuration. In these cases, and when the path of the CA certificate or of the CA
  key is empty, it returns an error of its own making and has done nothing: no file
  read, no database opened, no CRL assembled or printed. In every other case it makes
  no such error and starts by reading the CA certificate.
\<close>

theorem gencrlMain_usage:
  "(fst (gencrlMain io env clk X args c) \<in>
      {Some (New ''Only provide either DB config file (with -db-config) or serial list''),
       Some (New ''Need to provide either DB config file (with -db-config) or serial list''),
       Some (New ''Provided too many arguments, only expected one'')}
    \<longleftrightarrow> (DBConfigFile c \<noteq> [] \<and> 0 < length args) \<or>
         (DBConfigFile c = [] \<and> length args = 0) \<or>
         (DBConfigFile c = [] \<and> 1 < length args)) \<and>
   ((DBConfigFile c \<noteq> [] \<and> 0 < length args) \<or>
    (DBConfigFile c = [] \<and> length args = 0) \<or>
    (DBConfigFile c = [] \<and> 1 < length args) \<or> CAFile c = [] \<or> CAKeyFile c = []
      \<longrightarrow> (\<exists>m. fst (gencrlMain io env clk X args c) = Some (New m)) \<and>
          snd (gencrlMain io env clk X args c) = []) \<and>
   (\<not> ((DBConfigFile c \<noteq> [] \<and> 0 < length args) \<or>
       (DBConfigFile c = [] \<and> length args = 0) \<or>
       (DBConfigFile c = [] \<and> 1 < length args) \<or> CAFile c = [] \<or> CAKeyFile c = [])
      \<longrightarrow> (\<forall>m. fst (gencrlMain io env clk X args c) \<noteq> Some (New m)) \<and>
          (\<exists>acts. snd (gencrlMain io env clk X args c) = Read (CAFile c) # acts))"
proof -
  consider (conflict) "(DBConfigFile c \<noteq> [] \<and> args \<noteq> []) \<or> (DBConfigFile c = [] \<and> args = []) \<or>
        (DBConfigFile c = [] \<and> 1 < length args)"
    | (ca) "\<not> ((DBConfigFile c \<noteq> [] \<and> args \<noteq> []) \<or> (DBConfigFile c = [] \<and> args = []) \<or>
        (DBConfigFile c = [] \<and> 1 < length args))" "CAFile c = [] \<or> CAKeyFile c = []"
    | (go) "\<not> (DBConfigFile c \<noteq> [] \<and> args \<noteq> [])" "\<not> (DBConfigFile c = [] \<and> args = [])"
        "\<not> (DBConfigFile c = [] \<and> 1 < length args)" "CAFile c \<noteq> []" "CAKeyFile c \<noteq> []"
    by blast
  then show ?thesis
  proof cases
    case conflict
    then show ?thesis by (auto simp: gencrlMain_def)
  next
    case ca
    then show ?thesis by (auto simp: gencrlMain_def)
  next
    case go
    from gencrlMain_proceeds [OF go, of io env clk X] go show ?thesis
      by auto
  qed
qed


theorem gencrlMain_usage_witness:
  "gencrlMain sample_cli accepting_crypto tick_clock memdb [''testdata/serialList'']
     \<lparr>CAFile = [], CAKeyFile = [], CRLExpiry = 0,
      DBConfigFile = ''testdata/db-config.json''\<rparr> =
     (Some (New ''Only provide either DB config file (with -db-config) or serial list''), []) \<and>
   gencrlMain sample_cli accepting_crypto tick_clock memdb []
     \<lparr>CAFile = [], CAKeyFile = [], CRLExpiry = 0, DBConfigFile = []\<rparr> =
     (Some (New ''Need to provide either DB config file (with -db-config) or serial list''), []) \<and>
   gencrlMain sample_cli accepting_crypto tick_clock memdb
     [''testdata/serialList'', ''testdata/serialList2'']
     \<lparr>CAFile = [], CAKeyFile = [], CRLExpiry = 0, DBConfigFile = []\<rparr> =
     (Some (New ''Provided too many arguments, only expected one''), []) \<and>
   gencrlMain sample_cli accepting_crypto tick_clock memdb [''10'']
     \<lparr>CAFile = [], CAKeyFile = ''ca-key.pem'', CRLExpiry = 0, DBConfigFile = []\<rparr> =
     (Some (New ''Need a CA certificate (provide one with -ca)''), []) \<and>
   gencrlMain sample_cli accepting_crypto tick_clock memdb [''10'']
     \<lparr>CAFile = ''ca.pem'', CAKeyFile = [], CRLExpiry = 0, DBConfigFile = []\<rparr> =
     (Some (New ''Need a CA key (provide one with -ca-key)''), []) \<and>
   fst (gencrlMain sample_cli accepting_crypto tick_clock memdb [''10'']
     \<lparr>CAFile = ''ca.pem'', CAKeyFile = ''ca-key.pem'', CRLExpiry = 0, DBConfigFile = []\<rparr>) =
     None \<and>
   take 3 (snd (gencrlMain sample_cli accepting_crypto tick_clock memdb [''10'']
     \<lparr>CAFile = ''ca.pem'', CAKeyFile = ''ca-key.pem'', CRLExpiry = 0, DBConfigFile = []\<rparr>)) =
     [Read ''ca.pem'', Read ''ca-key.pem'', Read ''10'']"
proof -
  note t = gencrlMain_usage [of sample_cli accepting_crypto tick_clock memdb]
  have run: "NewCRLFromFile accepting_crypto tick_clock ''10'' ''ca.pem'' ''ca-key.pem'' 0 =
       Inr \<lparr>Issuer = ''ca.pem'',
          TBSCertList = \<lparr>ThisUpdate = \<lparr>nanos = 0, loc = LocUTC\<rparr>,
            NextUpdate = \<lparr>nanos = 604800000000000, loc = LocUTC\<rparr>,
            RevokedCertificates =
              [\<lparr>SerialNumber = 10, RevocationTime = \<lparr>nanos = 0, loc = LocUTC\<rparr>\<rparr>]\<rparr>,
          SignatureValue = ()\<rparr>"
    by (simp add: NewCRLFromFile_def CreateGenericCRL_def CreateCRL_def accepting_crypto_def
        tick_clock_def SetString_def is_digit_def digits_value_def digit_val_def newline_def
        asciiSpace_def space2_def space3_def UTC_def Add_def oneWeek_def Second_def Let_def
        marshal_tbs_def marshal_time_def)
  from t [of "[''testdata/serialList'']"
          "\<lparr>CAFile = [], CAKeyFile = [], CRLExpiry = 0,
            DBConfigFile = ''testdata/db-config.json''\<rparr>"]
    t [of "[''10'']"
          "\<lparr>CAFile = ''ca.pem'', CAKeyFile = ''ca-key.pem'', CRLExpiry = 0, DBConfigFile = []\<rparr>"]
  show ?thesis
    by (simp add: gencrlMain_def sample_cli_def run)
qed

end
